theory Spec2Isabelle
  imports Complex_Main
begin

section \<open>Python values shared by the modules\<close>

text \<open>
  Exceptions of the Python run time that the embedded functions can raise.  A function
  that can raise returns \<open>py_error + 'a\<close>, with \<open>Inl\<close> for the exception.
\<close>

datatype py_error =
    ValueError
  | KeyError
  | IndexError
  | IOError
  | StopIteration
  | ZeroDivisionError
  | UniquenessError

text \<open>
  \<open>os.path.join\<close> of the POSIX standard library, which every loader of the repository
  uses to build the name of its input file: a component that starts with the separator
  replaces the path built so far; otherwise it is appended, after a separator unless the
  path so far is empty or already ends with one.
\<close>

definition startswith_sep :: "string \<Rightarrow> bool" where
  "startswith_sep b = (case b of [] \<Rightarrow> False | c # _ \<Rightarrow> c = CHR ''/'')"

definition endswith_sep :: "string \<Rightarrow> bool" where
  "endswith_sep p = (case rev p of [] \<Rightarrow> False | c # _ \<Rightarrow> c = CHR ''/'')"

definition join_step :: "string \<Rightarrow> string \<Rightarrow> string" where
  "join_step path b =
     (if startswith_sep b then b
      else if path = [] \<or> endswith_sep path then path @ b
      else path @ ''/'' @ b)"

definition os_path_join :: "string \<Rightarrow> string list \<Rightarrow> string" where
  "os_path_join a p = foldl join_step a p"

text \<open>Python list indexing with a non-negative index: out of range raises IndexError.\<close>

definition py_index :: "'a list \<Rightarrow> nat \<Rightarrow> py_error + 'a" where
  "py_index xs i = (if i < length xs then Inr (xs ! i) else Inl IndexError)"


section \<open>Dynamic components\<close>

text \<open>
  The \<open>DynamicComponents\<close> object \<open>d\<close> that the modules share.  Its class is not among
  the source files; the fields are the attributes that the two modules below touch:
  the list named by the constant \<open>load_balance_consumption_components\<close>, the list
  \<open>required_reserve_modules\<close> and the dictionary \<open>footroom_variables\<close>.
\<close>

record dynamic_components =
  load_balance_consumption_components :: "string list"
  required_reserve_modules :: "string list"
  footroom_variables :: "string \<rightharpoonup> string list"

subsection \<open>gridpath/system/load_balance/static\_load\_requirement.py: registration\<close>

definition record_dynamic_components :: "dynamic_components \<Rightarrow> dynamic_components" where
  "record_dynamic_components d =
     d\<lparr>load_balance_consumption_components :=
          load_balance_consumption_components d @ [''LZ_Load_in_Tmp'']\<rparr>"

text \<open>
  The abstract model \<open>m\<close>, as far as \<open>add_model_components\<close> is concerned, is the list of
  the names of the components declared on it so far (the rules attached to the
  components are the functions of the section on the static load below; Pyomo runs them
  only when an instance is built).  The model handed in already declares \<open>LOAD_ZONES\<close>
  and \<open>TMPS\<close>, which come from modules outside the source files.
\<close>

type_synonym abstract_model = "string list"

definition add_model_components ::
  "abstract_model \<Rightarrow> dynamic_components \<Rightarrow> string \<Rightarrow> string \<Rightarrow> string \<Rightarrow> string
     \<Rightarrow> string \<Rightarrow> string \<Rightarrow> abstract_model \<times> dynamic_components" where
  "add_model_components m d scenario_directory weather_iteration hydro_iteration
       availability_iteration subproblem stage =
     (m @ [''LOAD_ZONE_LOAD_CMPNTS'', ''load_level_default'', ''LOAD_ZONE_TMP_LOAD_CMPNTS'',
           ''component_static_load_mw'', ''LZ_Load_in_Tmp''],
      record_dynamic_components d)"

subsection \<open>modules/generation\_and\_storage/operations/reserves/lf\_reserves\_down.py: registration\<close>

text \<open>
  \<open>determine_dynamic_components\<close> appends the module's name, then reads
  \<open>resources.tab\<close> and fills \<open>footroom_variables\<close>.  The file system is a partial map from
  a path to the rows of the tab-separated file (a missing path makes \<open>open\<close> raise).
  The function mutates \<open>d\<close> in place, so the model returns \<open>d\<close> as it stands when the
  function returns or raises, together with the exception if there is one.

  The helpers \<open>check_list_items_are_unique\<close> and \<open>find_list_item_position\<close> live in
  \<open>modules.auxiliary.auxiliary\<close>, which is not among the source files: they are
  parameters (\<open>chk\<close> tells whether the check passes, \<open>pos\<close> returns the positions).
\<close>

type_synonym tab_rows = "string list list"
type_synonym file_system = "string \<rightharpoonup> tab_rows"

definition footroom_row ::
  "(string list \<Rightarrow> string \<Rightarrow> nat list) \<Rightarrow> string list \<Rightarrow> dynamic_components \<Rightarrow> string list
     \<Rightarrow> dynamic_components \<times> py_error option" where
  "footroom_row pos headers d row =
     (case py_index (pos headers ''RESOURCES'') 0 of
        Inl e \<Rightarrow> (d, Some e)
      | Inr gi \<Rightarrow>
     (case py_index row gi of
        Inl e \<Rightarrow> (d, Some e)
      | Inr generator \<Rightarrow>
     (let d1 = (if generator \<notin> dom (footroom_variables d)
                then d\<lparr>footroom_variables := (footroom_variables d)(generator \<mapsto> [])\<rparr>
                else d)
      in case py_index (pos headers ''lf_reserves_down_zone'') 0 of
           Inl e \<Rightarrow> (d1, Some e)
         | Inr zi \<Rightarrow>
        (case py_index row zi of
           Inl e \<Rightarrow> (d1, Some e)
         | Inr zone \<Rightarrow>
             if zone \<noteq> ''.''
             then (d1\<lparr>footroom_variables := (footroom_variables d1)
                        (generator \<mapsto> the (footroom_variables d1 generator)
                                        @ [''Provide_LF_Reserves_Down_MW''])\<rparr>, None)
             else (d1, None)))))"

fun footroom_rows ::
  "(string list \<Rightarrow> string \<Rightarrow> nat list) \<Rightarrow> string list \<Rightarrow> dynamic_components \<Rightarrow> tab_rows
     \<Rightarrow> dynamic_components \<times> py_error option" where
  "footroom_rows pos headers d [] = (d, None)"
| "footroom_rows pos headers d (row # rows) =
     (case footroom_row pos headers d row of
        (d', Some e) \<Rightarrow> (d', Some e)
      | (d', None) \<Rightarrow> footroom_rows pos headers d' rows)"

definition determine_dynamic_components ::
  "(string list \<Rightarrow> bool) \<Rightarrow> (string list \<Rightarrow> string \<Rightarrow> nat list) \<Rightarrow> file_system
     \<Rightarrow> dynamic_components \<Rightarrow> string \<Rightarrow> string \<Rightarrow> string
     \<Rightarrow> dynamic_components \<times> py_error option" where
  "determine_dynamic_components chk pos fs d scenario_directory horizon stage =
     (let d0 = d\<lparr>required_reserve_modules := required_reserve_modules d @ [''lf_reserves_down'']\<rparr>
      in case fs (os_path_join scenario_directory [''inputs'', ''resources.tab'']) of
           None \<Rightarrow> (d0, Some IOError)
         | Some [] \<Rightarrow> (d0, Some StopIteration)
         | Some (headers # rows) \<Rightarrow>
             if \<not> chk headers then (d0, Some UniquenessError)
             else footroom_rows pos headers d0 rows)"


section \<open>Loading the input files\<close>

text \<open>
  The Pyomo \<open>DataPortal\<close>, as far as the loaders use it: the calls of \<open>load\<close> made so
  far, each with its file name and the names of the components given as \<open>index\<close>,
  \<open>set\<close> and \<open>param\<close>, and the entries written directly into \<open>data()\<close>.
\<close>

record load_call =
  filename :: string
  index_arg :: "string option"
  set_arg :: "string option"
  param_arg :: "string option"

record data_portal =
  loads :: "load_call list"
  data_entries :: "string \<rightharpoonup> string list"

definition data_portal_load ::
  "data_portal \<Rightarrow> string \<Rightarrow> string option \<Rightarrow> string option \<Rightarrow> string option \<Rightarrow> data_portal" where
  "data_portal_load dp f i s p =
     dp\<lparr>loads := loads dp @ [\<lparr>filename = f, index_arg = i, set_arg = s, param_arg = p\<rparr>]\<rparr>"

subsection \<open>gridpath/system/load_balance/static\_load\_requirement.py: load\_model\_data\<close>

definition load_model_data ::
  "abstract_model \<Rightarrow> dynamic_components \<Rightarrow> data_portal \<Rightarrow> string \<Rightarrow> string \<Rightarrow> string
     \<Rightarrow> string \<Rightarrow> string \<Rightarrow> string \<Rightarrow> data_portal" where
  "load_model_data m d dp scenario_directory weather_iteration hydro_iteration
       availability_iteration subproblem stage =
     (let dp1 = data_portal_load dp
            (os_path_join scenario_directory
               [weather_iteration, hydro_iteration, availability_iteration, subproblem, stage,
                ''inputs'', ''load_mw.tab''])
            (Some ''LOAD_ZONE_TMP_LOAD_CMPNTS'') None (Some ''component_static_load_mw'')
      in data_portal_load dp1
            (os_path_join scenario_directory
               [weather_iteration, hydro_iteration, availability_iteration, subproblem, stage,
                ''inputs'', ''load_level_defaults.tab''])
            (Some ''LOAD_ZONE_LOAD_CMPNTS'') None (Some ''load_level_default''))"

subsection \<open>gridpath/geography/carbon\_cap\_zones.py: load\_model\_data\<close>

definition load_model_data_carbon_cap_zones ::
  "abstract_model \<Rightarrow> dynamic_components \<Rightarrow> data_portal \<Rightarrow> string \<Rightarrow> string \<Rightarrow> string
     \<Rightarrow> data_portal" where
  "load_model_data_carbon_cap_zones m d dp scenario_directory horizon stage =
     data_portal_load dp
       (os_path_join scenario_directory [horizon, stage, ''inputs'', ''carbon_cap_zones.tab''])
       None (Some ''CARBON_CAP_ZONES'') None"

subsection \<open>gridpath/project/availability/availability\_types/exogenous.py: load\_module\_specific\_data\<close>

text \<open>
  \<open>determine_project_subset\<close> lives in \<open>gridpath.project.common_functions\<close>, which is not
  among the source files, and \<open>os.path.exists\<close> asks the file system: both are parameters
  (\<open>dps\<close> gives the projects of the availability type, \<open>path_exists\<close> tells whether a
  path exists).
\<close>

definition load_module_specific_data ::
  "(string \<Rightarrow> string \<Rightarrow> string \<Rightarrow> string \<Rightarrow> string \<Rightarrow> string list) \<Rightarrow> (string \<Rightarrow> bool)
     \<Rightarrow> abstract_model \<Rightarrow> data_portal \<Rightarrow> string \<Rightarrow> string \<Rightarrow> string \<Rightarrow> data_portal" where
  "load_module_specific_data dps path_exists m dp scenario_directory subproblem stage =
     (let project_subset =
            dps scenario_directory subproblem stage ''availability_type'' ''exogenous'';
          dp1 = dp\<lparr>data_entries := (data_entries dp)(''AVL_EXOG'' \<mapsto> project_subset)\<rparr>;
          availability_file =
            os_path_join scenario_directory
              [subproblem, stage, ''inputs'', ''project_availability_exogenous.tab'']
      in if path_exists availability_file
         then data_portal_load dp1 availability_file None None (Some ''avl_exog_derate'')
         else dp1)"

definition no_projects :: "string \<Rightarrow> string \<Rightarrow> string \<Rightarrow> string \<Rightarrow> string \<Rightarrow> string list" where
  "no_projects scenario_directory subproblem stage column type_name = []"

definition every_path_exists :: "string \<Rightarrow> bool" where
  "every_path_exists f = True"

definition empty_portal :: data_portal where
  "empty_portal = \<lparr>loads = [], data_entries = Map.empty\<rparr>"

definition no_components :: dynamic_components where
  "no_components =
     \<lparr>load_balance_consumption_components = [], required_reserve_modules = [],
      footroom_variables = Map.empty\<rparr>"


section \<open>The static load requirement\<close>

text \<open>
  A load is a non-negative float or \<open>float("inf")\<close>.  Finite floats are modelled as
  reals (rounding is not modelled), infinity is a value of its own, and addition is
  that of floats: a sum with infinity is infinity.
\<close>

datatype load_value = Finite real | Infinity

fun load_add :: "load_value \<Rightarrow> load_value \<Rightarrow> load_value" where
  "load_add (Finite x) (Finite y) = Finite (x + y)"
| "load_add _ _ = Infinity"

text \<open>
  The model instance, as far as this module reads and builds it.  The sets are lists in
  iteration order; \<open>LOAD_ZONES\<close> and \<open>TMPS\<close> come from other modules.  The two data
  fields hold what the data portal loaded for the two parameters (no entry: the file
  gave no value for that index).  \<open>LZ_Load_in_Tmp\<close> holds the entries of the expression
  component once Pyomo has built it.
\<close>

record static_load_model =
  LOAD_ZONES :: "string list"
  TMPS :: "int list"
  LOAD_ZONE_LOAD_CMPNTS :: "(string \<times> string) list"
  load_level_default_data :: "string \<times> string \<rightharpoonup> load_value"
  LOAD_ZONE_TMP_LOAD_CMPNTS :: "(string \<times> int \<times> string) list"
  component_static_load_mw_data :: "string \<times> int \<times> string \<rightharpoonup> load_value"
  LZ_Load_in_Tmp :: "((string \<times> int) \<times> load_value) list"

text \<open>
  \<open>m.load_level_default = Param(m.LOAD_ZONE_LOAD_CMPNTS, initialize=float("inf"))\<close>:
  reading the parameter at an index outside its index set raises KeyError; inside, the
  value is the loaded one, or infinity when none was loaded.
\<close>

definition load_level_default ::
  "static_load_model \<Rightarrow> string \<times> string \<Rightarrow> py_error + load_value" where
  "load_level_default md k =
     (if k \<notin> set (LOAD_ZONE_LOAD_CMPNTS md) then Inl KeyError
      else case load_level_default_data md k of None \<Rightarrow> Inr Infinity | Some v \<Rightarrow> Inr v)"

text \<open>The exception carries the message \<open>msg\<close>; the model keeps only its class.\<close>

definition check_for_value_and_raise_value_error ::
  "load_value \<Rightarrow> load_value \<Rightarrow> string \<Rightarrow> py_error + unit" where
  "check_for_value_and_raise_value_error param value_to_check msg =
     (if param = value_to_check then Inl ValueError else Inr ())"

definition set_default_and_warn_about_undefined_loads ::
  "static_load_model \<Rightarrow> string \<Rightarrow> int \<Rightarrow> string \<Rightarrow> py_error + load_value" where
  "set_default_and_warn_about_undefined_loads md lz tmp cmp =
     (case load_level_default md (lz, cmp) of
        Inl e \<Rightarrow> Inl e
      | Inr param \<Rightarrow>
          (case check_for_value_and_raise_value_error param Infinity
                  ''Parameter component_static_load_mw has no value defined.'' of
             Inl e \<Rightarrow> Inl e
           | Inr _ \<Rightarrow> load_level_default md (lz, cmp)))"

text \<open>
  \<open>m.component_static_load_mw = Param(m.LOAD_ZONE_TMP_LOAD_CMPNTS, default=...)\<close>: at an
  index of the set the value is the loaded one, or else what the default rule returns
  or raises.
\<close>

definition component_static_load_mw ::
  "static_load_model \<Rightarrow> string \<times> int \<times> string \<Rightarrow> py_error + load_value" where
  "component_static_load_mw md k =
     (if k \<notin> set (LOAD_ZONE_TMP_LOAD_CMPNTS md) then Inl KeyError
      else case component_static_load_mw_data md k of
             Some v \<Rightarrow> Inr v
           | None \<Rightarrow> (case k of (lz, tmp, cmp) \<Rightarrow>
                        set_default_and_warn_about_undefined_loads md lz tmp cmp))"

text \<open>The loop of \<open>total_static_load_from_components_init\<close> over the whole index set.\<close>

fun total_static_load_loop ::
  "static_load_model \<Rightarrow> string \<Rightarrow> int \<Rightarrow> load_value \<Rightarrow> (string \<times> int \<times> string) list
     \<Rightarrow> py_error + load_value" where
  "total_static_load_loop md lz tmp lz_load_in_tmp [] = Inr lz_load_in_tmp"
| "total_static_load_loop md lz tmp lz_load_in_tmp ((load_zone, timepoint, component) # rest) =
     (case component_static_load_mw md (load_zone, timepoint, component) of
        Inl e \<Rightarrow> Inl e
      | Inr v \<Rightarrow>
          if v = Infinity then Inl ValueError
          else if load_zone = lz \<and> timepoint = tmp
          then (case component_static_load_mw md (load_zone, timepoint, component) of
                  Inl e \<Rightarrow> Inl e
                | Inr w \<Rightarrow> total_static_load_loop md lz tmp (load_add lz_load_in_tmp w) rest)
          else total_static_load_loop md lz tmp lz_load_in_tmp rest)"

definition total_static_load_from_components_init ::
  "static_load_model \<Rightarrow> string \<Rightarrow> int \<Rightarrow> py_error + load_value" where
  "total_static_load_from_components_init md lz tmp =
     total_static_load_loop md lz tmp (Finite 0) (LOAD_ZONE_TMP_LOAD_CMPNTS md)"

text \<open>
  \<open>m.LZ_Load_in_Tmp = Expression(m.LOAD_ZONES, m.TMPS, initialize=...)\<close>: when the
  instance is built, the rule runs for every pair of the two sets, in order; the first
  exception aborts the construction.
\<close>

fun build_entries :: "('k \<Rightarrow> py_error + 'v) \<Rightarrow> 'k list \<Rightarrow> py_error + ('k \<times> 'v) list" where
  "build_entries rule [] = Inr []"
| "build_entries rule (k # ks) =
     (case rule k of
        Inl e \<Rightarrow> Inl e
      | Inr v \<Rightarrow> (case build_entries rule ks of
                    Inl e \<Rightarrow> Inl e
                  | Inr entries \<Rightarrow> Inr ((k, v) # entries)))"

definition LZ_Load_in_Tmp_rule :: "static_load_model \<Rightarrow> string \<times> int \<Rightarrow> py_error + load_value" where
  "LZ_Load_in_Tmp_rule md k = total_static_load_from_components_init md (fst k) (snd k)"

definition construct_LZ_Load_in_Tmp :: "static_load_model \<Rightarrow> py_error + static_load_model" where
  "construct_LZ_Load_in_Tmp md =
     (case build_entries (LZ_Load_in_Tmp_rule md) (List.product (LOAD_ZONES md) (TMPS md)) of
        Inl e \<Rightarrow> Inl e
      | Inr entries \<Rightarrow> Inr (md\<lparr>LZ_Load_in_Tmp := entries\<rparr>))"

text \<open>
  What the data say about an index, independently of how the module reads it.  The
  parameter is infinite at an index when the loaded value is infinity, or when no value
  was loaded and the default of the zone and component is infinite too (none was
  loaded, so it is left at its initial infinity, or infinity was loaded).
\<close>

definition infinite_load :: "static_load_model \<Rightarrow> string \<times> int \<times> string \<Rightarrow> bool" where
  "infinite_load md k =
     (case component_static_load_mw_data md k of
        Some v \<Rightarrow> v = Infinity
      | None \<Rightarrow> (case load_level_default_data md (fst k, snd (snd k)) of
                   None \<Rightarrow> True
                 | Some dflt \<Rightarrow> dflt = Infinity))"

text \<open>
  The finite load of an index by the data: the loaded value, or else the loaded default
  of the zone and component (0 where neither is finite).
\<close>

definition finite_load :: "static_load_model \<Rightarrow> string \<times> int \<times> string \<Rightarrow> real" where
  "finite_load md k =
     (case component_static_load_mw_data md k of
        Some (Finite x) \<Rightarrow> x
      | Some Infinity \<Rightarrow> 0
      | None \<Rightarrow> (case load_level_default_data md (fst k, snd (snd k)) of
                   Some (Finite x) \<Rightarrow> x
                 | _ \<Rightarrow> 0))"

text \<open>
  The defaults are declared: every index of \<open>LOAD_ZONE_TMP_LOAD_CMPNTS\<close> without a
  loaded value has its zone and component in \<open>LOAD_ZONE_LOAD_CMPNTS\<close>, the index set of
  \<open>load_level_default\<close>.  The module declares the two sets independently and loads them
  from two files, so nothing enforces this.
\<close>

definition defaults_declared :: "static_load_model \<Rightarrow> bool" where
  "defaults_declared md =
     list_all (\<lambda>k. component_static_load_mw_data md k = None
                    \<longrightarrow> (fst k, snd (snd k)) \<in> set (LOAD_ZONE_LOAD_CMPNTS md))
       (LOAD_ZONE_TMP_LOAD_CMPNTS md)"


text \<open>
  Three small instances.  In the first, the load of Zone2 has no value and no default.
  In the second, every load has a value or a finite default.  In the third, the base
  load of Zone1 has no value and no default, and the component \<open>ev\<close>, which comes first
  in the index set, has no value and is not declared in \<open>LOAD_ZONE_LOAD_CMPNTS\<close>.
\<close>

definition model_with_undeclared_component :: static_load_model where
  "model_with_undeclared_component =
     \<lparr>LOAD_ZONES = [''Zone1''], TMPS = [1],
      LOAD_ZONE_LOAD_CMPNTS = [(''Zone1'', ''base'')],
      load_level_default_data = Map.empty,
      LOAD_ZONE_TMP_LOAD_CMPNTS = [(''Zone1'', 1, ''ev''), (''Zone1'', 1, ''base'')],
      component_static_load_mw_data = Map.empty,
      LZ_Load_in_Tmp = []\<rparr>"

definition model_with_undefined_load :: static_load_model where
  "model_with_undefined_load =
     \<lparr>LOAD_ZONES = [''Zone1'', ''Zone2''], TMPS = [1],
      LOAD_ZONE_LOAD_CMPNTS = [(''Zone1'', ''base''), (''Zone2'', ''base'')],
      load_level_default_data = Map.empty,
      LOAD_ZONE_TMP_LOAD_CMPNTS = [(''Zone1'', 1, ''base''), (''Zone2'', 1, ''base'')],
      component_static_load_mw_data = [(''Zone1'', 1, ''base'') \<mapsto> Finite 10],
      LZ_Load_in_Tmp = []\<rparr>"

definition model_with_defined_loads :: static_load_model where
  "model_with_defined_loads =
     \<lparr>LOAD_ZONES = [''Zone1'', ''Zone2''], TMPS = [1],
      LOAD_ZONE_LOAD_CMPNTS = [(''Zone1'', ''base''), (''Zone1'', ''ev''), (''Zone2'', ''base'')],
      load_level_default_data = [(''Zone2'', ''base'') \<mapsto> Finite 7],
      LOAD_ZONE_TMP_LOAD_CMPNTS =
        [(''Zone1'', 1, ''base''), (''Zone1'', 1, ''ev''), (''Zone2'', 1, ''base'')],
      component_static_load_mw_data =
        [(''Zone1'', 1, ''base'') \<mapsto> Finite 10, (''Zone1'', 1, ''ev'') \<mapsto> Finite 5],
      LZ_Load_in_Tmp = []\<rparr>"

section \<open>Results data frames\<close>

text \<open>
  A pandas \<open>DataFrame\<close>, as far as the export functions use it: the names of its
  columns, and its rows in order, each with its index label and its cells by column
  name.  The cell \<open>None\<close> is Python's \<open>None\<close> (a missing value).
\<close>

record ('k, 'v) dataframe =
  df_columns :: "string list"
  df_rows :: "('k \<times> (string \<Rightarrow> 'v option)) list"

text \<open>
  Modelled from the spec: \<open>create_results_df\<close> of \<open>gridpath.common_functions\<close> is not
  among the source files.  Going by its arguments and by the results being "indexed by"
  the index columns, it builds the frame whose rows are the rows of \<open>data\<close>, labelled
  by their index columns, with the results columns as columns.  A row of \<open>data\<close> is
  given here as its label and the list of its results values.
\<close>

definition create_results_df ::
  "string list \<Rightarrow> string list \<Rightarrow> ('k \<times> 'v option list) list \<Rightarrow> ('k, 'v) dataframe" where
  "create_results_df index_columns results_columns data =
     \<lparr>df_columns = results_columns,
      df_rows = map (\<lambda>r. (fst r, (\<lambda>c. case map_of (zip results_columns (snd r)) c of
                                         None \<Rightarrow> None | Some v \<Rightarrow> v))) data\<rparr>"

text \<open>\<open>df[c] = v\<close>: the column \<open>c\<close> holds \<open>v\<close> in every row, and is added if new.\<close>

definition set_column :: "string \<Rightarrow> 'v option \<Rightarrow> ('k, 'v) dataframe \<Rightarrow> ('k, 'v) dataframe" where
  "set_column c v df =
     \<lparr>df_columns = (if c \<in> set (df_columns df) then df_columns df else df_columns df @ [c]),
      df_rows = map (\<lambda>r. (fst r, (snd r)(c := v))) (df_rows df)\<rparr>"

text \<open>
  \<open>df.update(other)\<close> of pandas: \<open>other\<close> is re-indexed by the labels of \<open>df\<close> (which
  raises ValueError when \<open>other\<close> has a label twice); then, in every column the two
  frames share, a cell of \<open>df\<close> is overwritten by the cell of \<open>other\<close> with the same label
  where that cell is not missing.  Rows of \<open>other\<close> whose label \<open>df\<close> lacks are dropped.
\<close>

definition update_cell ::
  "('k, 'v) dataframe \<Rightarrow> ('k, 'v) dataframe \<Rightarrow> 'k \<Rightarrow> (string \<Rightarrow> 'v option) \<Rightarrow> string \<Rightarrow> 'v option" where
  "update_cell df other k row c =
     (if c \<in> set (df_columns df) \<and> c \<in> set (df_columns other)
      then (case map_of (df_rows other) k of
              None \<Rightarrow> row c
            | Some that \<Rightarrow> (case that c of None \<Rightarrow> row c | Some v \<Rightarrow> Some v))
      else row c)"

definition df_update ::
  "('k, 'v) dataframe \<Rightarrow> ('k, 'v) dataframe \<Rightarrow> py_error + ('k, 'v) dataframe" where
  "df_update df other =
     (if \<not> distinct (map fst (df_rows other)) then Inl ValueError
      else Inr (df\<lparr>df_rows := map (\<lambda>r. (fst r, update_cell df other (fst r) (snd r)))
                                  (df_rows df)\<rparr>))"

subsection \<open>gridpath/system/load_balance/static\_load\_requirement.py: export\_results\<close>

text \<open>
  An entry of an expression component is a Pyomo object (\<open>ExpressionData\<close>) with the
  name of its component, its index and the expression it holds, here the number that
  the rule returned.  Pyomo's \<open>value\<close> turns the object into that number.  A cell of
  the results frame holds a number or such an object.
\<close>

datatype expression_data = ExpressionData string "string \<times> int" load_value

fun expression_value :: "expression_data \<Rightarrow> load_value" where
  "expression_value (ExpressionData name k v) = v"

datatype results_cell = Number_cell load_value | Object_cell expression_data

text \<open>
  Reading \<open>m.LZ_Load_in_Tmp[lz, tmp]\<close> gives the entry object; an index without an
  entry raises KeyError.
\<close>

definition LZ_Load_in_Tmp_at ::
  "static_load_model \<Rightarrow> string \<times> int \<Rightarrow> py_error + expression_data" where
  "LZ_Load_in_Tmp_at m k =
     (case map_of (LZ_Load_in_Tmp m) k of
        None \<Rightarrow> Inl KeyError
      | Some v \<Rightarrow> Inr (ExpressionData ''LZ_Load_in_Tmp'' k v))"

text \<open>
  A row of \<open>data\<close>: the source puts \<open>m.LZ_Load_in_Tmp[lz, tmp]\<close> itself into the row,
  without calling \<open>value\<close>, so the cell holds the object.
\<close>

definition export_results_row ::
  "static_load_model \<Rightarrow> string \<times> int \<Rightarrow> py_error + results_cell option list" where
  "export_results_row m k =
     (case LZ_Load_in_Tmp_at m k of
        Inl e \<Rightarrow> Inl e
      | Inr entry \<Rightarrow> Inr [Some (Object_cell entry)])"

definition export_results_data ::
  "static_load_model \<Rightarrow> py_error + ((string \<times> int) \<times> results_cell option list) list" where
  "export_results_data m =
     build_entries (export_results_row m) (List.product (LOAD_ZONES m) (TMPS m))"

text \<open>
  \<open>export_results\<close>: \<open>df\<close> is the frame \<open>getattr(d, LOAD_ZONE_TMP_DF)\<close> shared by the
  load-balance modules; the function returns it as updated.
\<close>

definition export_results ::
  "string \<Rightarrow> string \<Rightarrow> string \<Rightarrow> string \<Rightarrow> string \<Rightarrow> string \<Rightarrow> static_load_model
     \<Rightarrow> (string \<times> int, results_cell) dataframe
     \<Rightarrow> py_error + (string \<times> int, results_cell) dataframe" where
  "export_results scenario_directory weather_iteration hydro_iteration availability_iteration
       subproblem stage m df =
     (let results_columns = [''static_load_mw'']
      in case export_results_data m of
           Inl e \<Rightarrow> Inl e
         | Inr data \<Rightarrow>
             (let results_df =
                    create_results_df [''load_zone'', ''timepoint''] results_columns data
              in df_update (fold (\<lambda>c. set_column c None) results_columns df) results_df))"

text \<open>
  The cell that the export writes for a label: the entry object of \<open>LZ_Load_in_Tmp\<close> at
  that label, or nothing when the expression has no entry there.  The shared frame
  after the export has the column \<open>static_load_mw\<close> with this cell in every row; the
  other cells are as they were.
\<close>

definition static_load_cell :: "static_load_model \<Rightarrow> string \<times> int \<Rightarrow> results_cell option" where
  "static_load_cell m k =
     (case map_of (LZ_Load_in_Tmp m) k of
        None \<Rightarrow> None
      | Some v \<Rightarrow> Some (Object_cell (ExpressionData ''LZ_Load_in_Tmp'' k v)))"

definition merged_frame ::
  "static_load_model \<Rightarrow> (string \<times> int, results_cell) dataframe
     \<Rightarrow> (string \<times> int, results_cell) dataframe" where
  "merged_frame m df =
     \<lparr>df_columns = (if ''static_load_mw'' \<in> set (df_columns df) then df_columns df
                     else df_columns df @ [''static_load_mw'']),
      df_rows = map (\<lambda>r. (fst r, (snd r)(''static_load_mw'' := static_load_cell m (fst r))))
                  (df_rows df)\<rparr>"

text \<open>
  The second instance above once built, and a shared frame with a row for each load
  zone and timepoint and no column yet.
\<close>

definition built_model_with_defined_loads :: static_load_model where
  "built_model_with_defined_loads =
     model_with_defined_loads
       \<lparr>LZ_Load_in_Tmp := [((''Zone1'', 1), Finite 15), ((''Zone2'', 1), Finite 7)]\<rparr>"

definition empty_row :: "string \<Rightarrow> results_cell option" where
  "empty_row c = None"

definition shared_frame :: "(string \<times> int, results_cell) dataframe" where
  "shared_frame =
     \<lparr>df_columns = [], df_rows = [((''Zone1'', 1), empty_row), ((''Zone2'', 1), empty_row)]\<rparr>"

section \<open>Transmission targets\<close>

text \<open>
  gridpath/system/policy/transmission\_targets/transmission\_target\_balance.py.  An
  index is a transmission-target zone, a balancing type and a horizon.  The index set
  and the three parameters are declared and loaded by a module outside the source
  files, over this index set (the violation flag over the zones): the model takes them
  as they are after loading.  Parameter values are floats, modelled as reals.
\<close>

type_synonym tx_index = "string \<times> string \<times> int"

record tx_target_model =
  TRANSMISSION_TARGET_ZONE_BLN_TYPE_HRZS_WITH_TRANSMISSION_TARGET :: "tx_index list"
  transmission_target_allow_violation :: "string \<Rightarrow> bool"
  transmission_target_pos_dir_min_mwh :: "tx_index \<Rightarrow> real"
  transmission_target_neg_dir_min_mwh :: "tx_index \<Rightarrow> real"

text \<open>
  Pyomo expressions, as far as the rules build them: a number, an entry of a variable
  component, an entry of a named expression component, a sum.  A constraint rule
  returns \<open>Constraint.Skip\<close> or an inequality \<open>lhs >= rhs\<close>.
\<close>

datatype expr =
    Number real
  | Var_entry string tx_index
  | Expr_entry string tx_index
  | Plus expr expr

datatype constraint_expr = Skip | Geq expr expr

datatype domain = NonNegativeReals

record var_component =
  var_index :: "tx_index list"
  var_within :: domain

record tx_target_components =
  Transmission_Target_Shortage_Pos_Dir_MWh :: var_component
  Transmission_Target_Shortage_Neg_Dir_MWh :: var_component
  Transmission_Target_Shortage_Pos_Dir_MWh_Expression :: "(tx_index \<times> expr) list"
  Transmission_Target_Shortage_Neg_Dir_MWh_Expression :: "(tx_index \<times> expr) list"
  Transmission_Target_Pos_Dir_Constraint :: "(tx_index \<times> constraint_expr) list"
  Transmission_Target_Neg_Dir_Constraint :: "(tx_index \<times> constraint_expr) list"

definition violation_pos_dir_expression_rule ::
  "tx_target_model \<Rightarrow> string \<Rightarrow> string \<Rightarrow> int \<Rightarrow> expr" where
  "violation_pos_dir_expression_rule md z bt hz =
     (if transmission_target_allow_violation md z
      then Var_entry ''Transmission_Target_Shortage_Pos_Dir_MWh'' (z, bt, hz)
      else Number 0)"

definition violation_neg_dir_expression_rule ::
  "tx_target_model \<Rightarrow> string \<Rightarrow> string \<Rightarrow> int \<Rightarrow> expr" where
  "violation_neg_dir_expression_rule md z bt hz =
     (if transmission_target_allow_violation md z
      then Var_entry ''Transmission_Target_Shortage_Neg_Dir_MWh'' (z, bt, hz)
      else Number 0)"

definition transmission_target_pos_dir_rule ::
  "tx_target_model \<Rightarrow> string \<Rightarrow> string \<Rightarrow> int \<Rightarrow> constraint_expr" where
  "transmission_target_pos_dir_rule md z bt hz =
     (if transmission_target_pos_dir_min_mwh md (z, bt, hz) = 0 then Skip
      else Geq (Plus (Expr_entry ''Total_Transmission_Target_Energy_Pos_Dir_MWh'' (z, bt, hz))
                     (Expr_entry ''Transmission_Target_Shortage_Pos_Dir_MWh_Expression''
                        (z, bt, hz)))
               (Number (transmission_target_pos_dir_min_mwh md (z, bt, hz))))"

definition transmission_target_neg_dir_rule ::
  "tx_target_model \<Rightarrow> string \<Rightarrow> string \<Rightarrow> int \<Rightarrow> constraint_expr" where
  "transmission_target_neg_dir_rule md z bt hz =
     (if transmission_target_neg_dir_min_mwh md (z, bt, hz) = 0 then Skip
      else Geq (Plus (Expr_entry ''Total_Transmission_Target_Energy_Neg_Dir_MWh'' (z, bt, hz))
                     (Expr_entry ''Transmission_Target_Shortage_Neg_Dir_MWh_Expression''
                        (z, bt, hz)))
               (Number (transmission_target_neg_dir_min_mwh md (z, bt, hz))))"

text \<open>
  \<open>Expression(index_set, rule=...)\<close> has an entry for every index; \<open>Constraint(index_set,
  rule=...)\<close> has one for every index whose rule does not return \<open>Constraint.Skip\<close>.
\<close>

definition Expression_component ::
  "(string \<Rightarrow> string \<Rightarrow> int \<Rightarrow> expr) \<Rightarrow> tx_index list \<Rightarrow> (tx_index \<times> expr) list" where
  "Expression_component rule ks = map (\<lambda>k. (k, rule (fst k) (fst (snd k)) (snd (snd k)))) ks"

definition Constraint_component ::
  "(string \<Rightarrow> string \<Rightarrow> int \<Rightarrow> constraint_expr) \<Rightarrow> tx_index list
     \<Rightarrow> (tx_index \<times> constraint_expr) list" where
  "Constraint_component rule ks =
     filter (\<lambda>r. snd r \<noteq> Skip) (map (\<lambda>k. (k, rule (fst k) (fst (snd k)) (snd (snd k)))) ks)"

definition add_model_components_transmission_target_balance ::
  "tx_target_model \<Rightarrow> dynamic_components \<Rightarrow> string \<Rightarrow> string \<Rightarrow> string \<Rightarrow> tx_target_components" where
  "add_model_components_transmission_target_balance md d scenario_directory subproblem stage =
     (let ks = TRANSMISSION_TARGET_ZONE_BLN_TYPE_HRZS_WITH_TRANSMISSION_TARGET md
      in \<lparr>Transmission_Target_Shortage_Pos_Dir_MWh =
             \<lparr>var_index = ks, var_within = NonNegativeReals\<rparr>,
           Transmission_Target_Shortage_Neg_Dir_MWh =
             \<lparr>var_index = ks, var_within = NonNegativeReals\<rparr>,
           Transmission_Target_Shortage_Pos_Dir_MWh_Expression =
             Expression_component (violation_pos_dir_expression_rule md) ks,
           Transmission_Target_Shortage_Neg_Dir_MWh_Expression =
             Expression_component (violation_neg_dir_expression_rule md) ks,
           Transmission_Target_Pos_Dir_Constraint =
             Constraint_component (transmission_target_pos_dir_rule md) ks,
           Transmission_Target_Neg_Dir_Constraint =
             Constraint_component (transmission_target_neg_dir_rule md) ks\<rparr>)"

subsection \<open>export\_results of the transmission-target balance\<close>

text \<open>
  After the solve, \<open>value\<close> evaluates an expression in the solution: \<open>sol\<close> gives the
  value of each variable entry and of each entry of an expression defined by another
  module (the total delivered energy).  Python's \<open>/\<close> raises ZeroDivisionError on a zero
  divisor.
\<close>

fun pyomo_value :: "(string \<Rightarrow> tx_index \<Rightarrow> real) \<Rightarrow> expr \<Rightarrow> real" where
  "pyomo_value sol (Number x) = x"
| "pyomo_value sol (Var_entry n k) = sol n k"
| "pyomo_value sol (Expr_entry n k) = sol n k"
| "pyomo_value sol (Plus a b) = pyomo_value sol a + pyomo_value sol b"

definition py_truediv :: "real \<Rightarrow> real \<Rightarrow> py_error + real" where
  "py_truediv a b = (if b = 0 then Inl ZeroDivisionError else Inr (a / b))"

definition export_row_transmission_target_balance ::
  "tx_target_model \<Rightarrow> (string \<Rightarrow> tx_index \<Rightarrow> real) \<Rightarrow> tx_index \<Rightarrow> py_error + real option list" where
  "export_row_transmission_target_balance m sol k =
     (case (if transmission_target_pos_dir_min_mwh m k = 0 then Inr 1
            else py_truediv
                   (pyomo_value sol (Expr_entry ''Total_Transmission_Target_Energy_Pos_Dir_MWh'' k))
                   (transmission_target_pos_dir_min_mwh m k)) of
        Inl e \<Rightarrow> Inl e
      | Inr fraction_pos \<Rightarrow>
     (case (if transmission_target_neg_dir_min_mwh m k = 0 then Inr 1
            else py_truediv
                   (pyomo_value sol (Expr_entry ''Total_Transmission_Target_Energy_Neg_Dir_MWh'' k))
                   (transmission_target_neg_dir_min_mwh m k)) of
        Inl e \<Rightarrow> Inl e
      | Inr fraction_neg \<Rightarrow>
          Inr [Some fraction_pos,
               Some (pyomo_value sol
                  (violation_pos_dir_expression_rule m (fst k) (fst (snd k)) (snd (snd k)))),
               Some fraction_neg,
               Some (pyomo_value sol
                  (violation_neg_dir_expression_rule m (fst k) (fst (snd k)) (snd (snd k))))]))"

definition export_data_transmission_target_balance ::
  "tx_target_model \<Rightarrow> (string \<Rightarrow> tx_index \<Rightarrow> real) \<Rightarrow> py_error + (tx_index \<times> real option list) list" where
  "export_data_transmission_target_balance m sol =
     build_entries (export_row_transmission_target_balance m sol)
       (TRANSMISSION_TARGET_ZONE_BLN_TYPE_HRZS_WITH_TRANSMISSION_TARGET m)"

text \<open>\<open>df\<close> is the frame \<open>getattr(d, TX_TARGETS_DF)\<close>; the function returns it as updated.\<close>

definition export_results_transmission_target_balance ::
  "string \<Rightarrow> string \<Rightarrow> string \<Rightarrow> tx_target_model \<Rightarrow> (string \<Rightarrow> tx_index \<Rightarrow> real)
     \<Rightarrow> (tx_index, real) dataframe \<Rightarrow> py_error + (tx_index, real) dataframe" where
  "export_results_transmission_target_balance scenario_directory subproblem stage m sol df =
     (let results_columns =
            [''fraction_of_transmission_target_pos_dir_min_met'',
             ''transmission_target_shortage_pos_dir_min_mwh'',
             ''fraction_of_transmission_target_neg_dir_met'',
             ''transmission_target_shortage_neg_dir_min_mwh'']
      in case export_data_transmission_target_balance m sol of
           Inl e \<Rightarrow> Inl e
         | Inr data \<Rightarrow>
             (let results_df =
                    create_results_df
                      [''transmission_target_zone'', ''balancing_type'', ''horizon'']
                      results_columns data
              in df_update (fold (\<lambda>c. set_column c None) results_columns df) results_df))"

text \<open>The fraction of a target met, as the export reports it.\<close>

definition fraction_met :: "real \<Rightarrow> real \<Rightarrow> real" where
  "fraction_met delivered target = (if target = 0 then 1 else delivered / target)"

section \<open>Inputs of the static load from the database\<close>

text \<open>
  gridpath/system/load\_balance/static\_load\_requirement.py: get\_inputs\_from\_database.
  The connection \<open>conn\<close> is the database: each table the two queries read is the list
  of its rows, a row being a record of the columns the queries use.  Identifiers,
  iterations, stages and timepoints are integers.
\<close>

record load_levels_row =
  ll_load_levels_scenario_id :: int
  ll_weather_iteration :: int
  ll_stage_id :: int
  ll_timepoint :: int
  ll_load_zone :: string
  ll_load_component :: string
  ll_load_mw :: real

record temporal_row =
  t_temporal_scenario_id :: int
  t_subproblem_id :: int
  t_stage_id :: int
  t_timepoint :: int

record load_zones_row =
  z_load_zone_scenario_id :: int
  z_load_zone :: string

record system_load_row =
  s_load_scenario_id :: int
  s_load_components_scenario_id :: int
  s_load_levels_scenario_id :: int

record load_components_row =
  c_load_components_scenario_id :: int
  c_load_zone :: string
  c_load_component :: string
  c_load_level_default :: "real option"

record database =
  inputs_system_load_levels :: "load_levels_row list"
  inputs_temporal :: "temporal_row list"
  inputs_geography_load_zones :: "load_zones_row list"
  inputs_system_load :: "system_load_row list"
  inputs_system_load_components :: "load_components_row list"

record subscenarios =
  TEMPORAL_SCENARIO_ID :: int
  LOAD_ZONE_SCENARIO_ID :: int
  LOAD_SCENARIO_ID :: int

text \<open>
  A subquery used as a value, \<open>x = (SELECT ...)\<close>: SQLite takes the first row of the
  subquery, and NULL when there is none; a comparison with NULL selects no row.
\<close>

definition scalar_subquery :: "'a list \<Rightarrow> 'a option" where
  "scalar_subquery rows = (case rows of [] \<Rightarrow> None | r # _ \<Rightarrow> Some r)"

definition relevant_timepoints :: "database \<Rightarrow> subscenarios \<Rightarrow> int \<Rightarrow> int \<Rightarrow> int list" where
  "relevant_timepoints conn subscenarios subproblem stage =
     [t_timepoint t. t \<leftarrow> inputs_temporal conn,
        t_temporal_scenario_id t = TEMPORAL_SCENARIO_ID subscenarios
        \<and> t_subproblem_id t = subproblem \<and> t_stage_id t = stage]"

definition relevant_load_zones :: "database \<Rightarrow> subscenarios \<Rightarrow> string list" where
  "relevant_load_zones conn subscenarios =
     [z_load_zone z. z \<leftarrow> inputs_geography_load_zones conn,
        z_load_zone_scenario_id z = LOAD_ZONE_SCENARIO_ID subscenarios]"

definition load_levels_scenario_of :: "database \<Rightarrow> subscenarios \<Rightarrow> int option" where
  "load_levels_scenario_of conn subscenarios =
     scalar_subquery
       [s_load_levels_scenario_id s. s \<leftarrow> inputs_system_load conn,
          s_load_scenario_id s = LOAD_SCENARIO_ID subscenarios]"

definition load_components_scenario_of :: "database \<Rightarrow> subscenarios \<Rightarrow> int option" where
  "load_components_scenario_of conn subscenarios =
     scalar_subquery
       [s_load_components_scenario_id s. s \<leftarrow> inputs_system_load conn,
          s_load_scenario_id s = LOAD_SCENARIO_ID subscenarios]"

definition relevant_load_components :: "database \<Rightarrow> subscenarios \<Rightarrow> (string \<times> string) list" where
  "relevant_load_components conn subscenarios =
     [(c_load_zone c, c_load_component c). c \<leftarrow> inputs_system_load_components conn,
        load_components_scenario_of conn subscenarios = Some (c_load_components_scenario_id c)]"

definition get_inputs_from_database ::
  "int \<Rightarrow> subscenarios \<Rightarrow> int \<Rightarrow> int \<Rightarrow> int \<Rightarrow> int \<Rightarrow> int \<Rightarrow> database
     \<Rightarrow> (string \<times> int \<times> string \<times> real) list \<times> (string \<times> string \<times> real option) list" where
  "get_inputs_from_database scenario_id subscenarios weather_iteration hydro_iteration
       availability_iteration subproblem stage conn =
     (let loads =
            [(ll_load_zone r, ll_timepoint r, ll_load_component r, ll_load_mw r).
               r \<leftarrow> inputs_system_load_levels conn,
               tp \<leftarrow> relevant_timepoints conn subscenarios subproblem stage,
               tp = ll_timepoint r,
               lz \<leftarrow> relevant_load_zones conn subscenarios,
               lz = ll_load_zone r,
               load_levels_scenario_of conn subscenarios = Some (ll_load_levels_scenario_id r)
               \<and> (ll_load_zone r, ll_load_component r)
                     \<in> set (relevant_load_components conn subscenarios)
               \<and> ll_weather_iteration r = weather_iteration
               \<and> ll_stage_id r = stage];
          ld_comp_defaults =
            [(c_load_zone c, c_load_component c, c_load_level_default c).
               c \<leftarrow> inputs_system_load_components conn,
               lz \<leftarrow> relevant_load_zones conn subscenarios,
               lz = c_load_zone c,
               load_components_scenario_of conn subscenarios
                 = Some (c_load_components_scenario_id c)]
      in (loads, ld_comp_defaults))"

text \<open>
  A row of \<open>inputs_system_load_levels\<close> belongs to the scenario when it passes every
  filter: its timepoint is a timepoint of the temporal subscenario in the subproblem
  and stage, its load zone is a zone of the load-zone subscenario, its load-levels
  subscenario and its (zone, component) pair are those that a row of
  \<open>inputs_system_load\<close> with the scenario's \<open>load_scenario_id\<close> refers to, and it has
  the weather iteration and the stage.
\<close>

definition timepoint_in_scenario :: "database \<Rightarrow> subscenarios \<Rightarrow> int \<Rightarrow> int \<Rightarrow> int \<Rightarrow> bool" where
  "timepoint_in_scenario conn subscenarios subproblem stage tp =
     (\<exists>t \<in> set (inputs_temporal conn).
        t_timepoint t = tp \<and> t_temporal_scenario_id t = TEMPORAL_SCENARIO_ID subscenarios
        \<and> t_subproblem_id t = subproblem \<and> t_stage_id t = stage)"

definition load_zone_in_scenario :: "database \<Rightarrow> subscenarios \<Rightarrow> string \<Rightarrow> bool" where
  "load_zone_in_scenario conn subscenarios lz =
     (\<exists>z \<in> set (inputs_geography_load_zones conn).
        z_load_zone z = lz \<and> z_load_zone_scenario_id z = LOAD_ZONE_SCENARIO_ID subscenarios)"

definition load_levels_in_scenario :: "database \<Rightarrow> subscenarios \<Rightarrow> int \<Rightarrow> bool" where
  "load_levels_in_scenario conn subscenarios levels_id =
     (\<exists>s \<in> set (inputs_system_load conn).
        s_load_scenario_id s = LOAD_SCENARIO_ID subscenarios
        \<and> s_load_levels_scenario_id s = levels_id)"

definition load_component_in_scenario :: "database \<Rightarrow> subscenarios \<Rightarrow> string \<Rightarrow> string \<Rightarrow> bool" where
  "load_component_in_scenario conn subscenarios lz cmp =
     (\<exists>s \<in> set (inputs_system_load conn). \<exists>c \<in> set (inputs_system_load_components conn).
        s_load_scenario_id s = LOAD_SCENARIO_ID subscenarios
        \<and> c_load_components_scenario_id c = s_load_components_scenario_id s
        \<and> c_load_zone c = lz \<and> c_load_component c = cmp)"

text \<open>
  A small database: four load-level rows, of which only the first passes every filter
  of scenario 1 (the second is of another load-levels subscenario, the third of another
  weather iteration, the fourth of a zone outside the load-zone subscenario).
\<close>


definition demo_database :: database where
  "demo_database =
     \<lparr>inputs_system_load_levels =
        [\<lparr>ll_load_levels_scenario_id = 1, ll_weather_iteration = 1, ll_stage_id = 1,
          ll_timepoint = 1, ll_load_zone = ''Zone1'', ll_load_component = ''base'',
          ll_load_mw = 10\<rparr>,
         \<lparr>ll_load_levels_scenario_id = 2, ll_weather_iteration = 1, ll_stage_id = 1,
          ll_timepoint = 1, ll_load_zone = ''Zone1'', ll_load_component = ''base'',
          ll_load_mw = 99\<rparr>,
         \<lparr>ll_load_levels_scenario_id = 1, ll_weather_iteration = 2, ll_stage_id = 1,
          ll_timepoint = 1, ll_load_zone = ''Zone1'', ll_load_component = ''base'',
          ll_load_mw = 12\<rparr>,
         \<lparr>ll_load_levels_scenario_id = 1, ll_weather_iteration = 1, ll_stage_id = 1,
          ll_timepoint = 1, ll_load_zone = ''Zone2'', ll_load_component = ''base'',
          ll_load_mw = 20\<rparr>],
      inputs_temporal =
        [\<lparr>t_temporal_scenario_id = 1, t_subproblem_id = 1, t_stage_id = 1, t_timepoint = 1\<rparr>],
      inputs_geography_load_zones =
        [\<lparr>z_load_zone_scenario_id = 1, z_load_zone = ''Zone1''\<rparr>],
      inputs_system_load =
        [\<lparr>s_load_scenario_id = 1, s_load_components_scenario_id = 1,
          s_load_levels_scenario_id = 1\<rparr>],
      inputs_system_load_components =
        [\<lparr>c_load_components_scenario_id = 1, c_load_zone = ''Zone1'',
          c_load_component = ''base'', c_load_level_default = None\<rparr>]\<rparr>"

definition demo_subscenarios :: subscenarios where
  "demo_subscenarios =
     \<lparr>TEMPORAL_SCENARIO_ID = 1, LOAD_ZONE_SCENARIO_ID = 1, LOAD_SCENARIO_ID = 1\<rparr>"

section \<open>Loading the system PRM requirement from CSV data\<close>

text \<open>
  db/csvs\_to\_db\_utilities/load\_system\_prm.py.  The two pandas frames are the lists of
  their rows.  The scenario identifier and the period are integer columns, so \<open>int(...)\<close>
  keeps their values; the requirement is a float, modelled as a real, and \<open>float(...)\<close>
  keeps its value.
\<close>

record prm_subscenario_row =
  sub_prm_requirement_scenario_id :: int
  sub_name :: string
  sub_description :: string

record prm_data_row =
  prm_requirement_scenario_id :: int
  prm_zone :: string
  period :: int
  prm_requirement_mw :: real

text \<open>
  \<open>Series.unique()\<close>: the values in order of first appearance.
  \<open>.iloc[0]\<close>: the first element; IndexError on an empty selection.
\<close>

definition unique :: "'a list \<Rightarrow> 'a list" where
  "unique xs = rev (remdups (rev xs))"

definition iloc0 :: "'a list \<Rightarrow> py_error + 'a" where
  "iloc0 xs = (case xs of [] \<Rightarrow> Inl IndexError | x # _ \<Rightarrow> Inr x)"

text \<open>The inner loop, over the periods of one zone, filling \<open>zone_period_requirement[z]\<close>.\<close>

fun period_loop ::
  "prm_data_row list \<Rightarrow> (int \<rightharpoonup> real) \<Rightarrow> int list \<Rightarrow> py_error + (int \<rightharpoonup> real)" where
  "period_loop zone_period_requirement_by_zone by_period [] = Inr by_period"
| "period_loop zone_period_requirement_by_zone by_period (p # ps) =
     (case iloc0 (map prm_requirement_mw
                    (filter (\<lambda>r. period r = p) zone_period_requirement_by_zone)) of
        Inl e \<Rightarrow> Inl e
      | Inr v \<Rightarrow> period_loop zone_period_requirement_by_zone (by_period(p \<mapsto> v)) ps)"

text \<open>The loop over the zones of one subscenario, filling \<open>zone_period_requirement\<close>.\<close>

fun zone_loop ::
  "prm_data_row list \<Rightarrow> (string \<rightharpoonup> (int \<rightharpoonup> real)) \<Rightarrow> string list
     \<Rightarrow> py_error + (string \<rightharpoonup> (int \<rightharpoonup> real))" where
  "zone_loop data_input_subscenario zone_period_requirement [] = Inr zone_period_requirement"
| "zone_loop data_input_subscenario zone_period_requirement (z # zs) =
     (let zone_period_requirement_by_zone =
            filter (\<lambda>r. prm_zone r = z) data_input_subscenario
      in case period_loop zone_period_requirement_by_zone Map.empty
                (unique (map period zone_period_requirement_by_zone)) of
           Inl e \<Rightarrow> Inl e
         | Inr by_period \<Rightarrow>
             zone_loop data_input_subscenario (zone_period_requirement(z \<mapsto> by_period)) zs)"

text \<open>
  \<open>system_prm.prm_requirement\<close> lives in \<open>db.utilities\<close>, which is not among the source
  files: the model records each call with its arguments (the handles \<open>io\<close> and \<open>c\<close> are
  only handed on and are left out).  The function returns the calls made, and the
  exception if one stopped it.
\<close>

record prm_requirement_call =
  arg_prm_requirement_scenario_id :: int
  arg_scenario_name :: string
  arg_scenario_description :: string
  arg_zone_period_requirement :: "string \<rightharpoonup> (int \<rightharpoonup> real)"

fun load_system_prm_requirement ::
  "prm_subscenario_row list \<Rightarrow> prm_data_row list
     \<Rightarrow> prm_requirement_call list \<times> py_error option" where
  "load_system_prm_requirement [] data_input = ([], None)"
| "load_system_prm_requirement (i # rest) data_input =
     (let sc_id = sub_prm_requirement_scenario_id i;
          sc_name = sub_name i;
          sc_description = sub_description i;
          data_input_subscenario =
            filter (\<lambda>r. prm_requirement_scenario_id r = sc_id) data_input
      in case zone_loop data_input_subscenario Map.empty
                (unique (map prm_zone data_input_subscenario)) of
           Inl e \<Rightarrow> ([], Some e)
         | Inr zone_period_requirement \<Rightarrow>
             (case load_system_prm_requirement rest data_input of
                (calls, err) \<Rightarrow>
                  (\<lparr>arg_prm_requirement_scenario_id = sc_id,
                    arg_scenario_name = sc_name,
                    arg_scenario_description = sc_description,
                    arg_zone_period_requirement = zone_period_requirement\<rparr> # calls, err)))"

text \<open>
  Reading the dictionary at a zone and a period, and the requirement of the first row
  of the input for a subscenario, zone and period (none when no row matches).
\<close>

definition requirement_at :: "(string \<rightharpoonup> (int \<rightharpoonup> real)) \<Rightarrow> string \<Rightarrow> int \<Rightarrow> real option" where
  "requirement_at zone_period_requirement z p =
     (case zone_period_requirement z of None \<Rightarrow> None | Some by_period \<Rightarrow> by_period p)"

definition first_requirement :: "prm_data_row list \<Rightarrow> int \<Rightarrow> string \<Rightarrow> int \<Rightarrow> real option" where
  "first_requirement data_input sc_id z p =
     (case filter (\<lambda>r. prm_requirement_scenario_id r = sc_id \<and> prm_zone r = z \<and> period r = p)
             data_input of
        [] \<Rightarrow> None
      | r # _ \<Rightarrow> Some (prm_requirement_mw r))"

text \<open>
  An input with two rows for the same zone and period of subscenario 1, with different
  requirements, and a row of another subscenario.
\<close>

definition prm_subscenario_input :: "prm_subscenario_row list" where
  "prm_subscenario_input =
     [\<lparr>sub_prm_requirement_scenario_id = 1, sub_name = ''base'', sub_description = ''base prm''\<rparr>]"

definition prm_data_input :: "prm_data_row list" where
  "prm_data_input =
     [\<lparr>prm_requirement_scenario_id = 1, prm_zone = ''PRM1'', period = 2030,
       prm_requirement_mw = 100\<rparr>,
      \<lparr>prm_requirement_scenario_id = 1, prm_zone = ''PRM1'', period = 2030,
       prm_requirement_mw = 250\<rparr>,
      \<lparr>prm_requirement_scenario_id = 2, prm_zone = ''PRM1'', period = 2040,
       prm_requirement_mw = 300\<rparr>]"

text \<open>The requirement of the first row of one zone's rows for a period.\<close>

definition first_in_period :: "prm_data_row list \<Rightarrow> int \<Rightarrow> real option" where
  "first_in_period rows p =
     (case filter (\<lambda>r. period r = p) rows of [] \<Rightarrow> None | r # _ \<Rightarrow> Some (prm_requirement_mw r))"

section \<open>Registration of dynamic components\<close>

lemma footroom_row_keeps_lists:
  "required_reserve_modules (fst (footroom_row pos headers d row)) = required_reserve_modules d
   \<and> load_balance_consumption_components (fst (footroom_row pos headers d row))
       = load_balance_consumption_components d"
  by (simp add: footroom_row_def Let_def split: sum.splits)

lemma footroom_rows_keeps_lists:
  "required_reserve_modules (fst (footroom_rows pos headers d rows)) = required_reserve_modules d
   \<and> load_balance_consumption_components (fst (footroom_rows pos headers d rows))
       = load_balance_consumption_components d"
proof (induction rows arbitrary: d)
  case Nil
  show ?case by simp
next
  case (Cons row rows)
  obtain d' r where step: "footroom_row pos headers d row = (d', r)"
    by (cases "footroom_row pos headers d row")
  have keep: "required_reserve_modules d' = required_reserve_modules d
      \<and> load_balance_consumption_components d' = load_balance_consumption_components d"
    using footroom_row_keeps_lists [of pos headers d row] step by simp
  show ?case
  proof (cases r)
    case None
    with step keep Cons.IH [of d'] show ?thesis by simp
  next
    case (Some e)
    with step keep show ?thesis by simp
  qed
qed

text \<open>
  C1.  Registration appends exactly the module's own name and keeps every name that was
  registered before.  The static-load module does it at the end of
  \<open>add_model_components\<close>: the list \<open>load_balance_consumption_components\<close> of \<open>d\<close> becomes
  the old list followed by \<open>LZ_Load_in_Tmp\<close>, and the other list is as it was.  The
  \<open>lf_reserves_down\<close> module does it in its registration step
  \<open>determine_dynamic_components\<close>: \<open>required_reserve_modules\<close> becomes the old list
  followed by \<open>lf_reserves_down\<close>, whatever the resources file holds and whether or not
  reading it raises, and the other list is as it was.
\<close>

theorem registration_appends_module_name:
  "load_balance_consumption_components
      (snd (add_model_components m d sd wi hi ai sp st))
     = load_balance_consumption_components d @ [''LZ_Load_in_Tmp'']
   \<and> required_reserve_modules (snd (add_model_components m d sd wi hi ai sp st))
     = required_reserve_modules d
   \<and> required_reserve_modules (fst (determine_dynamic_components chk pos fs d sd hz st))
     = required_reserve_modules d @ [''lf_reserves_down'']
   \<and> load_balance_consumption_components
        (fst (determine_dynamic_components chk pos fs d sd hz st))
     = load_balance_consumption_components d"
proof -
  have a: "load_balance_consumption_components
      (snd (add_model_components m d sd wi hi ai sp st))
     = load_balance_consumption_components d @ [''LZ_Load_in_Tmp'']"
    by (simp add: add_model_components_def record_dynamic_components_def)
  have b: "required_reserve_modules (snd (add_model_components m d sd wi hi ai sp st))
     = required_reserve_modules d"
    by (simp add: add_model_components_def record_dynamic_components_def)
  have c: "required_reserve_modules (fst (determine_dynamic_components chk pos fs d sd hz st))
       = required_reserve_modules d @ [''lf_reserves_down'']
     \<and> load_balance_consumption_components
        (fst (determine_dynamic_components chk pos fs d sd hz st))
       = load_balance_consumption_components d"
    by (simp add: determine_dynamic_components_def Let_def footroom_rows_keeps_lists
             split: option.splits list.splits)
  from a b c show ?thesis by simp
qed

section \<open>Input paths of the loaders\<close>

lemma filenames_after_load:
  "map filename (loads (data_portal_load dp f i s p)) = map filename (loads dp) @ [f]"
  by (simp add: data_portal_load_def)

text \<open>
  C2, as stated, fails.  With the index values weather iteration 1, hydro iteration 2,
  availability iteration 3, subproblem 4 and stage 5 under the directory \<open>scenario\<close>,
  the static-load loader reads \<open>scenario/1/2/3/4/5/inputs/load_mw.tab\<close>, but the
  carbon-cap-zone loader, which has only the arguments horizon and stage, reads
  \<open>scenario/4/5/inputs/carbon_cap_zones.tab\<close>, and the exogenous-availability loader,
  which has only subproblem and stage, reads
  \<open>scenario/4/5/inputs/project_availability_exogenous.tab\<close>: neither file is under the
  directory that joins all five index values.
\<close>

theorem loaders_do_not_share_index_path:
  "map filename (loads (load_model_data [] no_components empty_portal
        ''scenario'' ''1'' ''2'' ''3'' ''4'' ''5''))
     = [''scenario/1/2/3/4/5/inputs/load_mw.tab'',
        ''scenario/1/2/3/4/5/inputs/load_level_defaults.tab'']
   \<and> map filename (loads (load_model_data_carbon_cap_zones [] no_components empty_portal
        ''scenario'' ''4'' ''5''))
     = [''scenario/4/5/inputs/carbon_cap_zones.tab'']
   \<and> map filename (loads (load_model_data_carbon_cap_zones [] no_components empty_portal
        ''scenario'' ''4'' ''5''))
     \<noteq> [os_path_join ''scenario''
          [''1'', ''2'', ''3'', ''4'', ''5'', ''inputs'', ''carbon_cap_zones.tab'']]
   \<and> map filename (loads (load_module_specific_data no_projects every_path_exists []
        empty_portal ''scenario'' ''4'' ''5''))
     = [''scenario/4/5/inputs/project_availability_exogenous.tab'']
   \<and> map filename (loads (load_module_specific_data no_projects every_path_exists []
        empty_portal ''scenario'' ''4'' ''5''))
     \<noteq> [os_path_join ''scenario''
          [''1'', ''2'', ''3'', ''4'', ''5'', ''inputs'', ''project_availability_exogenous.tab'']]"
  by (simp add: load_model_data_def load_model_data_carbon_cap_zones_def
        load_module_specific_data_def data_portal_load_def empty_portal_def Let_def
        every_path_exists_def
        os_path_join_def join_step_def startswith_sep_def endswith_sep_def)

text \<open>
  C2, amended.  Each loader resolves its files by \<open>os.path.join\<close> of the scenario
  directory, its own temporal arguments in order, \<open>inputs\<close> and the file name, but the
  temporal arguments differ from module to module: the static-load loader takes weather
  iteration, hydro iteration, availability iteration, subproblem and stage and loads
  \<open>load_mw.tab\<close> and \<open>load_level_defaults.tab\<close>; the carbon-cap-zone loader takes
  horizon and stage only; the exogenous-availability loader takes subproblem and stage
  only, and loads its file only when it exists.
\<close>

theorem loader_input_paths:
  "map filename (loads (load_model_data m d dp sd wi hi ai sp st))
     = map filename (loads dp)
       @ [os_path_join sd [wi, hi, ai, sp, st, ''inputs'', ''load_mw.tab''],
          os_path_join sd [wi, hi, ai, sp, st, ''inputs'', ''load_level_defaults.tab'']]
   \<and> map filename (loads (load_model_data_carbon_cap_zones m d dp sd hz st))
     = map filename (loads dp)
       @ [os_path_join sd [hz, st, ''inputs'', ''carbon_cap_zones.tab'']]
   \<and> map filename (loads (load_module_specific_data dps path_exists m dp sd sp st))
     = map filename (loads dp)
       @ (if path_exists (os_path_join sd
                 [sp, st, ''inputs'', ''project_availability_exogenous.tab''])
          then [os_path_join sd [sp, st, ''inputs'', ''project_availability_exogenous.tab'']]
          else [])"
proof -
  have static: "map filename (loads (load_model_data m d dp sd wi hi ai sp st))
     = map filename (loads dp)
       @ [os_path_join sd [wi, hi, ai, sp, st, ''inputs'', ''load_mw.tab''],
          os_path_join sd [wi, hi, ai, sp, st, ''inputs'', ''load_level_defaults.tab'']]"
    by (simp add: load_model_data_def Let_def filenames_after_load)
  have zones: "map filename (loads (load_model_data_carbon_cap_zones m d dp sd hz st))
     = map filename (loads dp)
       @ [os_path_join sd [hz, st, ''inputs'', ''carbon_cap_zones.tab'']]"
    by (simp add: load_model_data_carbon_cap_zones_def filenames_after_load)
  have exog: "map filename (loads (load_module_specific_data dps path_exists m dp sd sp st))
     = map filename (loads dp)
       @ (if path_exists (os_path_join sd
                 [sp, st, ''inputs'', ''project_availability_exogenous.tab''])
          then [os_path_join sd [sp, st, ''inputs'', ''project_availability_exogenous.tab'']]
          else [])"
    by (simp add: load_module_specific_data_def Let_def filenames_after_load)
  from static zones exog show ?thesis by simp
qed


section \<open>The static load: total or ValueError\<close>

lemmas static_read_defs =
  component_static_load_mw_def set_default_and_warn_about_undefined_loads_def
  load_level_default_def check_for_value_and_raise_value_error_def

lemmas static_defs = static_read_defs infinite_load_def defaults_declared_def finite_load_def

lemma read_follows_data:
  assumes "defaults_declared md" and "k \<in> set (LOAD_ZONE_TMP_LOAD_CMPNTS md)"
  shows "(infinite_load md k \<longrightarrow>
            component_static_load_mw md k = Inr Infinity
            \<or> component_static_load_mw md k = Inl ValueError)
       \<and> (\<not> infinite_load md k \<longrightarrow>
            component_static_load_mw md k = Inr (Finite (finite_load md k)))"
proof (cases "component_static_load_mw_data md k")
  case (Some v)
  with assms(2) show ?thesis
    by (cases v) (simp_all add: component_static_load_mw_def infinite_load_def finite_load_def)
next
  case None
  obtain lz tmp cmp where k: "k = (lz, tmp, cmp)" by (cases k) auto
  from assms None have decl: "(lz, cmp) \<in> set (LOAD_ZONE_LOAD_CMPNTS md)"
    by (auto simp: defaults_declared_def list_all_iff k)
  show ?thesis
  proof (cases "load_level_default_data md (lz, cmp)")
    case no_default: None
    with None decl assms(2) show ?thesis
      by (simp add: static_defs k)
  next
    case (Some dflt)
    with None decl assms(2) show ?thesis
      by (cases dflt) (simp_all add: static_defs k)
  qed
qed

lemma loop_raises_value_error:
  assumes "\<forall>k\<in>set ks. component_static_load_mw md k = Inl ValueError
             \<or> (\<exists>v. component_static_load_mw md k = Inr v)"
    and "\<exists>k\<in>set ks. component_static_load_mw md k = Inr Infinity
             \<or> component_static_load_mw md k = Inl ValueError"
  shows "total_static_load_loop md lz tmp acc ks = Inl ValueError"
  using assms
proof (induction ks arbitrary: acc)
  case Nil
  then show ?case by simp
next
  case (Cons k ks)
  obtain z t c where k: "k = (z, t, c)" by (cases k) auto
  show ?case
  proof (cases "component_static_load_mw md k = Inr Infinity
             \<or> component_static_load_mw md k = Inl ValueError")
    case True
    then show ?thesis by (auto simp: k)
  next
    case False
    with Cons.prems have rest: "\<exists>k\<in>set ks. component_static_load_mw md k = Inr Infinity
             \<or> component_static_load_mw md k = Inl ValueError" by auto
    from Cons.prems have ok: "\<forall>k\<in>set ks. component_static_load_mw md k = Inl ValueError
             \<or> (\<exists>v. component_static_load_mw md k = Inr v)" by simp
    from Cons.prems False obtain v where v: "component_static_load_mw md k = Inr v" "v \<noteq> Infinity"
      by auto
    show ?thesis using v Cons.IH [OF ok rest] by (auto simp: k)
  qed
qed

lemma loop_sums_finite_loads:
  assumes "\<forall>k\<in>set ks. component_static_load_mw md k = Inr (Finite (f k))"
  shows "total_static_load_loop md lz tmp (Finite a) ks
       = Inr (Finite (a + sum_list (map f
                 (filter (\<lambda>k. fst k = lz \<and> fst (snd k) = tmp) ks))))"
  using assms
proof (induction ks arbitrary: a)
  case Nil
  then show ?case by simp
next
  case (Cons k ks)
  obtain z t c where k: "k = (z, t, c)" by (cases k) auto
  from Cons.prems have here: "component_static_load_mw md (z, t, c) = Inr (Finite (f (z, t, c)))"
    by (simp add: k)
  from Cons.prems have rest: "\<forall>k\<in>set ks. component_static_load_mw md k = Inr (Finite (f k))"
    by simp
  show ?case using here Cons.IH [OF rest] by (auto simp: k add.assoc)
qed

lemma sum_list_components:
  assumes "distinct ks"
  shows "sum_list (map f (filter (\<lambda>k. fst k = lz \<and> fst (snd k) = tmp) ks))
       = (\<Sum>c | (lz, tmp, c) \<in> set ks. f (lz, tmp, c))"
proof -
  let ?sel = "filter (\<lambda>k. fst k = lz \<and> fst (snd k) = tmp) ks"
  have d: "distinct ?sel" using assms by simp
  have img: "set ?sel = (\<lambda>c. (lz, tmp, c)) ` {c. (lz, tmp, c) \<in> set ks}"
    by (auto simp: image_iff)
  have inj: "inj_on (\<lambda>c. (lz, tmp, c)) {c. (lz, tmp, c) \<in> set ks}"
    by (simp add: inj_on_def)
  have "sum_list (map f ?sel) = sum f (set ?sel)"
    using d by (simp add: sum_list_distinct_conv_sum_set)
  also have "\<dots> = (\<Sum>c | (lz, tmp, c) \<in> set ks. f (lz, tmp, c))"
    unfolding img by (simp add: sum.reindex [OF inj])
  finally show ?thesis .
qed

text \<open>
  C6, as stated, fails.  In the third instance the base load of Zone1 has no value and
  its \<open>load_level_default\<close> is left at its infinite default, so the parameter is infinite
  at that index; but the rule of \<open>LZ_Load_in_Tmp\<close> first reads the component \<open>ev\<close>, whose
  zone and component are not in the index set of \<open>load_level_default\<close>, and raises
  KeyError, not ValueError.
\<close>

theorem static_load_key_error_not_value_error:
  "(''Zone1'', 1, ''base'') \<in> set (LOAD_ZONE_TMP_LOAD_CMPNTS model_with_undeclared_component)
   \<and> component_static_load_mw_data model_with_undeclared_component (''Zone1'', 1, ''base'') = None
   \<and> load_level_default model_with_undeclared_component (''Zone1'', ''base'') = Inr Infinity
   \<and> infinite_load model_with_undeclared_component (''Zone1'', 1, ''base'')
   \<and> total_static_load_from_components_init model_with_undeclared_component ''Zone1'' 1
       = Inl KeyError
   \<and> total_static_load_from_components_init model_with_undeclared_component ''Zone1'' 1
       \<noteq> Inl ValueError"
  by (simp add: total_static_load_from_components_init_def static_defs
        model_with_undeclared_component_def)

text \<open>
  C6, amended.  Let every index of \<open>LOAD_ZONE_TMP_LOAD_CMPNTS\<close> without a loaded value
  have its zone and component in \<open>LOAD_ZONE_LOAD_CMPNTS\<close>, and let the index set hold
  each index once.  If the parameter \<open>component_static_load_mw\<close> is infinite at any index
  (infinity was loaded, or no value was loaded and \<open>load_level_default\<close> of the zone and
  component is infinite), the rule of \<open>LZ_Load_in_Tmp\<close> raises ValueError for every load
  zone and timepoint, also those whose own components are all defined.  If it is
  infinite at no index, the rule raises nothing and returns the sum of
  \<open>component_static_load_mw[lz, tmp, c]\<close> over the components \<open>c\<close> with \<open>(lz, tmp, c)\<close>
  in the index set.
\<close>

theorem static_load_total_or_value_error:
  assumes "defaults_declared md" and "distinct (LOAD_ZONE_TMP_LOAD_CMPNTS md)"
  shows "((\<exists>k\<in>set (LOAD_ZONE_TMP_LOAD_CMPNTS md). infinite_load md k)
            \<longrightarrow> total_static_load_from_components_init md lz tmp = Inl ValueError)
       \<and> ((\<forall>k\<in>set (LOAD_ZONE_TMP_LOAD_CMPNTS md). \<not> infinite_load md k)
            \<longrightarrow> total_static_load_from_components_init md lz tmp
                = Inr (Finite (\<Sum>c | (lz, tmp, c) \<in> set (LOAD_ZONE_TMP_LOAD_CMPNTS md).
                                  finite_load md (lz, tmp, c))))"
proof (intro conjI impI)
  assume inf: "\<exists>k\<in>set (LOAD_ZONE_TMP_LOAD_CMPNTS md). infinite_load md k"
  have all: "\<forall>k\<in>set (LOAD_ZONE_TMP_LOAD_CMPNTS md). component_static_load_mw md k = Inl ValueError
             \<or> (\<exists>v. component_static_load_mw md k = Inr v)"
    using read_follows_data [OF assms(1)] by blast
  have some: "\<exists>k\<in>set (LOAD_ZONE_TMP_LOAD_CMPNTS md). component_static_load_mw md k = Inr Infinity
             \<or> component_static_load_mw md k = Inl ValueError"
    using read_follows_data [OF assms(1)] inf by blast
  from loop_raises_value_error [OF all some]
  show "total_static_load_from_components_init md lz tmp = Inl ValueError"
    by (simp add: total_static_load_from_components_init_def)
next
  assume fin: "\<forall>k\<in>set (LOAD_ZONE_TMP_LOAD_CMPNTS md). \<not> infinite_load md k"
  have "\<forall>k\<in>set (LOAD_ZONE_TMP_LOAD_CMPNTS md).
          component_static_load_mw md k = Inr (Finite (finite_load md k))"
    using read_follows_data [OF assms(1)] fin by blast
  from loop_sums_finite_loads [OF this, of lz tmp 0]
  show "total_static_load_from_components_init md lz tmp
      = Inr (Finite (\<Sum>c | (lz, tmp, c) \<in> set (LOAD_ZONE_TMP_LOAD_CMPNTS md).
                        finite_load md (lz, tmp, c)))"
    by (simp add: total_static_load_from_components_init_def sum_list_components [OF assms(2)])
qed

text \<open>
  The theorem at the first two instances: with the load of Zone2 undefined, the rule
  raises ValueError for Zone1, whose own load is defined; with every load defined, the
  total of Zone1 is 10 + 5.
\<close>

theorem static_load_total_or_value_error_witness:
  "defaults_declared model_with_undefined_load
   \<and> distinct (LOAD_ZONE_TMP_LOAD_CMPNTS model_with_undefined_load)
   \<and> (\<exists>k\<in>set (LOAD_ZONE_TMP_LOAD_CMPNTS model_with_undefined_load).
          infinite_load model_with_undefined_load k)
   \<and> total_static_load_from_components_init model_with_undefined_load ''Zone1'' 1 = Inl ValueError
   \<and> defaults_declared model_with_defined_loads
   \<and> distinct (LOAD_ZONE_TMP_LOAD_CMPNTS model_with_defined_loads)
   \<and> list_all (\<lambda>k. \<not> infinite_load model_with_defined_loads k)
         (LOAD_ZONE_TMP_LOAD_CMPNTS model_with_defined_loads)
   \<and> total_static_load_from_components_init model_with_defined_loads ''Zone1'' 1
       = Inr (Finite 15)"
proof -
  have a1: "defaults_declared model_with_undefined_load"
    by (simp add: defaults_declared_def model_with_undefined_load_def)
  have a2: "distinct (LOAD_ZONE_TMP_LOAD_CMPNTS model_with_undefined_load)"
    by (simp add: model_with_undefined_load_def)
  have a3: "\<exists>k\<in>set (LOAD_ZONE_TMP_LOAD_CMPNTS model_with_undefined_load).
          infinite_load model_with_undefined_load k"
    by (simp add: infinite_load_def model_with_undefined_load_def)
  have b1: "defaults_declared model_with_defined_loads"
    by (simp add: defaults_declared_def model_with_defined_loads_def)
  have b2: "distinct (LOAD_ZONE_TMP_LOAD_CMPNTS model_with_defined_loads)"
    by (simp add: model_with_defined_loads_def)
  have b3: "\<forall>k\<in>set (LOAD_ZONE_TMP_LOAD_CMPNTS model_with_defined_loads).
          \<not> infinite_load model_with_defined_loads k"
    by (simp add: infinite_load_def model_with_defined_loads_def)
  have comps: "{c. (''Zone1'', 1, c) \<in> set (LOAD_ZONE_TMP_LOAD_CMPNTS model_with_defined_loads)}
       = {''base'', ''ev''}"
    by (auto simp: model_with_defined_loads_def)
  have total: "(\<Sum>c | (''Zone1'', 1, c) \<in> set (LOAD_ZONE_TMP_LOAD_CMPNTS model_with_defined_loads).
          finite_load model_with_defined_loads (''Zone1'', 1, c)) = 15"
    unfolding comps by (simp add: finite_load_def model_with_defined_loads_def)
  from static_load_total_or_value_error [OF a1 a2, of "''Zone1''" 1] a3
  have r1: "total_static_load_from_components_init model_with_undefined_load ''Zone1'' 1
       = Inl ValueError" by blast
  from static_load_total_or_value_error [OF b1 b2, of "''Zone1''" 1] b3 total
  have r2: "total_static_load_from_components_init model_with_defined_loads ''Zone1'' 1
       = Inr (Finite 15)" by simp
  from b3 have b4: "list_all (\<lambda>k. \<not> infinite_load model_with_defined_loads k)
         (LOAD_ZONE_TMP_LOAD_CMPNTS model_with_defined_loads)"
    by (simp add: list_all_iff)
  from a1 a2 a3 r1 b1 b2 b4 r2 show ?thesis by blast
qed


section \<open>Export of the static load\<close>

lemma build_entries_keys:
  "build_entries rule ks = Inr es \<Longrightarrow> map fst es = ks \<and> list_all (\<lambda>r. rule (fst r) = Inr (snd r)) es"
proof (induction ks arbitrary: es)
  case Nil
  then show ?case by simp
next
  case (Cons k ks)
  then show ?case by (auto split: sum.splits)
qed

lemma build_entries_total:
  "\<forall>k\<in>set ks. rule k = Inr (g k) \<Longrightarrow> build_entries rule ks = Inr (map (\<lambda>k. (k, g k)) ks)"
  by (induction ks) simp_all

lemma loop_ignores_entries:
  "total_static_load_loop (md\<lparr>LZ_Load_in_Tmp := es\<rparr>) lz tmp acc ks
     = total_static_load_loop md lz tmp acc ks"
proof (induction ks arbitrary: acc)
  case Nil
  show ?case by simp
next
  case (Cons k ks)
  obtain z t c where k: "k = (z, t, c)" by (cases k) auto
  have dflt: "set_default_and_warn_about_undefined_loads (md\<lparr>LZ_Load_in_Tmp := es\<rparr>)
                = set_default_and_warn_about_undefined_loads md"
  proof (intro ext)
    fix lz tmp cmp
    have lld: "load_level_default (md\<lparr>LZ_Load_in_Tmp := es\<rparr>) (lz, cmp) = load_level_default md (lz, cmp)"
      by (simp add: load_level_default_def)
    show "set_default_and_warn_about_undefined_loads (md\<lparr>LZ_Load_in_Tmp := es\<rparr>) lz tmp cmp
        = set_default_and_warn_about_undefined_loads md lz tmp cmp"
      unfolding set_default_and_warn_about_undefined_loads_def lld ..
  qed
  have same: "component_static_load_mw (md\<lparr>LZ_Load_in_Tmp := es\<rparr>) = component_static_load_mw md"
    unfolding component_static_load_mw_def dflt by (rule ext) simp
  show ?case by (auto simp: k same Cons.IH split: sum.splits)
qed

lemma rule_ignores_entries:
  "total_static_load_from_components_init (md\<lparr>LZ_Load_in_Tmp := es\<rparr>) lz tmp
     = total_static_load_from_components_init md lz tmp"
  by (simp add: total_static_load_from_components_init_def loop_ignores_entries)

lemma constructed_entries:
  assumes "construct_LZ_Load_in_Tmp md = Inr m"
  shows "LOAD_ZONES m = LOAD_ZONES md \<and> TMPS m = TMPS md
       \<and> map fst (LZ_Load_in_Tmp m) = List.product (LOAD_ZONES md) (TMPS md)
       \<and> list_all (\<lambda>r. total_static_load_from_components_init m (fst (fst r)) (snd (fst r))
                          = Inr (snd r)) (LZ_Load_in_Tmp m)"
proof -
  from assms obtain es where
    es: "build_entries (LZ_Load_in_Tmp_rule md) (List.product (LOAD_ZONES md) (TMPS md)) = Inr es"
    and m: "m = md\<lparr>LZ_Load_in_Tmp := es\<rparr>"
    by (auto simp: construct_LZ_Load_in_Tmp_def split: sum.splits)
  from build_entries_keys [OF es] show ?thesis
    by (simp add: m rule_ignores_entries LZ_Load_in_Tmp_rule_def)
qed

lemma entry_at:
  assumes "distinct (map fst es)" and "k \<in> set (map fst es)"
  shows "\<exists>v. map_of es k = Some v \<and> (k, v) \<in> set es"
  using assms by (induction es) auto

lemma export_data_of_entries:
  assumes "distinct (map fst (LZ_Load_in_Tmp m))"
    and "map fst (LZ_Load_in_Tmp m) = List.product (LOAD_ZONES m) (TMPS m)"
  shows "export_results_data m
       = Inr (map (\<lambda>k. (k, [static_load_cell m k])) (List.product (LOAD_ZONES m) (TMPS m)))"
proof -
  have "\<forall>k\<in>set (List.product (LOAD_ZONES m) (TMPS m)).
          export_results_row m k = Inr [static_load_cell m k]"
  proof
    fix k assume "k \<in> set (List.product (LOAD_ZONES m) (TMPS m))"
    with assms have "k \<in> set (map fst (LZ_Load_in_Tmp m))" by simp
    from entry_at [OF assms(1) this] obtain v where "map_of (LZ_Load_in_Tmp m) k = Some v" by blast
    then show "export_results_row m k = Inr [static_load_cell m k]"
      by (simp add: export_results_row_def LZ_Load_in_Tmp_at_def static_load_cell_def)
  qed
  from build_entries_total [OF this] show ?thesis by (simp add: export_results_data_def)
qed

lemma map_of_data_rows:
  "map_of (map (\<lambda>k. (k, f k)) ks) k = (if k \<in> set ks then Some (f k) else None)"
  by (induction ks) auto

lemma export_results_merges:
  assumes d: "distinct (map fst (LZ_Load_in_Tmp m))"
    and keys: "map fst (LZ_Load_in_Tmp m) = List.product (LOAD_ZONES m) (TMPS m)"
  shows "export_results sd wi hi ai sp st m df = Inr (merged_frame m df)"
proof -
  let ?ks = "List.product (LOAD_ZONES m) (TMPS m)"
  let ?data = "map (\<lambda>k. (k, [static_load_cell m k])) ?ks"
  let ?other = "create_results_df [''load_zone'', ''timepoint''] [''static_load_mw''] ?data"
  let ?df1 = "set_column ''static_load_mw'' None df"
  have dist: "distinct (map fst (df_rows ?other))"
    using d keys by (simp add: create_results_df_def comp_def)
  have cell: "update_cell ?df1 ?other k ((snd r)(''static_load_mw'' := None))
            = (snd r)(''static_load_mw'' := static_load_cell m k)" for k r
  proof (rule ext)
    fix c
    have none: "k \<notin> set ?ks \<Longrightarrow> static_load_cell m k = None"
    proof -
      assume "k \<notin> set ?ks"
      with keys have "map_of (LZ_Load_in_Tmp m) k = None"
        by (metis map_of_eq_None_iff set_map)
      then show ?thesis by (simp add: static_load_cell_def)
    qed
    have shape: "df_rows ?other
        = map (\<lambda>k. (k, (\<lambda>c. case map_of (zip [''static_load_mw''] [static_load_cell m k]) c of
                               None \<Rightarrow> None | Some v \<Rightarrow> v))) ?ks"
      by (simp add: create_results_df_def comp_def)
    have rows: "map_of (df_rows ?other) k
        = (if k \<in> set ?ks then Some (\<lambda>c. case map_of (zip [''static_load_mw''] [static_load_cell m k]) c of
                                         None \<Rightarrow> None | Some v \<Rightarrow> v) else None)"
      unfolding shape by (rule map_of_data_rows)
    have cols: "''static_load_mw'' \<in> set (df_columns ?df1)" "df_columns ?other = [''static_load_mw'']"
      by (simp_all add: set_column_def create_results_df_def)
    show "update_cell ?df1 ?other k ((snd r)(''static_load_mw'' := None)) c
            = ((snd r)(''static_load_mw'' := static_load_cell m k)) c"
    proof (cases "c = ''static_load_mw''")
      case False
      then show ?thesis unfolding update_cell_def cols by simp
    next
      case True
      show ?thesis
      proof (cases "k \<in> set ?ks")
        case False
        with none have "static_load_cell m k = None" by simp
        with False True show ?thesis unfolding update_cell_def rows by simp
      next
        case inset: True
        with True cols(1) show ?thesis unfolding update_cell_def rows cols(2)
          by (simp split: option.splits)
      qed
    qed
  qed
  have r1: "df_rows ?df1 = map (\<lambda>r. (fst r, (snd r)(''static_load_mw'' := None))) (df_rows df)"
    by (simp add: set_column_def)
  have r2: "map (\<lambda>r. (fst r, update_cell ?df1 ?other (fst r) (snd r))) (df_rows ?df1)
      = map (\<lambda>r. (fst r, (snd r)(''static_load_mw'' := static_load_cell m (fst r))))
          (df_rows df)"
    unfolding r1 by (simp add: comp_def cell)
  have "df_update ?df1 ?other = Inr (?df1\<lparr>df_rows :=
          map (\<lambda>r. (fst r, update_cell ?df1 ?other (fst r) (snd r))) (df_rows ?df1)\<rparr>)"
    using dist by (simp add: df_update_def)
  also have "?df1\<lparr>df_rows :=
          map (\<lambda>r. (fst r, update_cell ?df1 ?other (fst r) (snd r))) (df_rows ?df1)\<rparr>
        = merged_frame m df"
    unfolding r2 by (simp add: merged_frame_def set_column_def)
  finally have "df_update ?df1 ?other = Inr (merged_frame m df)" .
  then show ?thesis
    by (simp add: export_results_def export_data_of_entries [OF d keys])
qed

text \<open>
  What \<open>export_results\<close> does on any instance that Pyomo has built, with load zones and
  timepoints each listed once: exactly one row for each pair of \<open>LOAD_ZONES\<close> x \<open>TMPS\<close>,
  whose cell is the entry object of \<open>LZ_Load_in_Tmp\<close> at the pair (its value is what the
  rule returned), merged into the shared frame by label.
\<close>

lemma export_results_rows_and_objects:
  assumes "construct_LZ_Load_in_Tmp md = Inr m"
    and "distinct (LOAD_ZONES md)" and "distinct (TMPS md)"
  shows "\<exists>data. export_results_data m = Inr data
           \<and> distinct (map fst data)
           \<and> set (map fst data) = set (LOAD_ZONES m) \<times> set (TMPS m)
           \<and> list_all (\<lambda>r. \<exists>v. snd r = [Some (Object_cell (ExpressionData ''LZ_Load_in_Tmp'' (fst r) v))]
                   \<and> total_static_load_from_components_init m (fst (fst r)) (snd (fst r)) = Inr v)
               data
           \<and> export_results sd wi hi ai sp st m df = Inr (merged_frame m df)"
proof -
  let ?ks = "List.product (LOAD_ZONES m) (TMPS m)"
  let ?data = "map (\<lambda>k. (k, [static_load_cell m k])) ?ks"
  note c = constructed_entries [OF assms(1)]
  have keys: "map fst (LZ_Load_in_Tmp m) = ?ks" using c by simp
  have dks: "distinct ?ks" using assms(2,3) c by (simp add: distinct_product)
  have d: "distinct (map fst (LZ_Load_in_Tmp m))" using keys dks by simp
  have data: "export_results_data m = Inr ?data" by (rule export_data_of_entries [OF d keys])
  have d1: "distinct (map fst ?data)" using dks by (simp add: comp_def)
  have s1: "set (map fst ?data) = set (LOAD_ZONES m) \<times> set (TMPS m)" by (simp add: comp_def)
  have vals: "list_all (\<lambda>r. \<exists>v. snd r = [Some (Object_cell (ExpressionData ''LZ_Load_in_Tmp'' (fst r) v))]
                   \<and> total_static_load_from_components_init m (fst (fst r)) (snd (fst r)) = Inr v)
               ?data"
    unfolding list_all_iff
  proof
    fix r assume "r \<in> set ?data"
    then obtain k where k: "k \<in> set ?ks" and r: "r = (k, [static_load_cell m k])" by auto
    from k keys have "k \<in> set (map fst (LZ_Load_in_Tmp m))" by simp
    from entry_at [OF d this] obtain v where v: "map_of (LZ_Load_in_Tmp m) k = Some v"
      and mem: "(k, v) \<in> set (LZ_Load_in_Tmp m)" by blast
    from c mem have "total_static_load_from_components_init m (fst k) (snd k) = Inr v"
      by (auto simp: list_all_iff)
    with v show "\<exists>v. snd r = [Some (Object_cell (ExpressionData ''LZ_Load_in_Tmp'' (fst r) v))]
                   \<and> total_static_load_from_components_init m (fst (fst r)) (snd (fst r)) = Inr v"
      by (simp add: r static_load_cell_def)
  qed
  from data d1 s1 vals export_results_merges [OF d keys] show ?thesis by blast
qed

text \<open>
  C4.  On the built instance with the loads 15 for Zone1 and 7 for Zone2,
  \<open>export_results\<close> of the static-load module makes exactly one results row for each
  pair of \<open>LOAD_ZONES\<close> x \<open>TMPS\<close> and merges the rows into the shared frame by their
  (load_zone, timepoint) label; but the \<open>static_load_mw\<close> cell of a row is not the
  value of the expression \<open>LZ_Load_in_Tmp[lz, tmp]\<close>: it is the expression object
  itself, whose value is 15, because the module puts \<open>m.LZ_Load_in_Tmp[lz, tmp]\<close> into
  the row without calling \<open>value\<close>, which the export of the transmission-target
  balance does call.
\<close>

theorem export_results_stores_expression_object:
  "construct_LZ_Load_in_Tmp model_with_defined_loads = Inr built_model_with_defined_loads
   \<and> export_results_data built_model_with_defined_loads
       = Inr [((''Zone1'', 1),
                 [Some (Object_cell (ExpressionData ''LZ_Load_in_Tmp'' (''Zone1'', 1) (Finite 15)))]),
              ((''Zone2'', 1),
                 [Some (Object_cell (ExpressionData ''LZ_Load_in_Tmp'' (''Zone2'', 1) (Finite 7)))])]
   \<and> export_results ''scenario'' ''1'' ''1'' ''1'' ''1'' ''1'' built_model_with_defined_loads
         shared_frame
       = Inr \<lparr>df_columns = [''static_load_mw''],
              df_rows =
                [((''Zone1'', 1),
                    empty_row(''static_load_mw'' :=
                      Some (Object_cell (ExpressionData ''LZ_Load_in_Tmp'' (''Zone1'', 1) (Finite 15))))),
                 ((''Zone2'', 1),
                    empty_row(''static_load_mw'' :=
                      Some (Object_cell (ExpressionData ''LZ_Load_in_Tmp'' (''Zone2'', 1) (Finite 7)))))]\<rparr>
   \<and> expression_value (ExpressionData ''LZ_Load_in_Tmp'' (''Zone1'', 1) (Finite 15)) = Finite 15
   \<and> Object_cell (ExpressionData ''LZ_Load_in_Tmp'' (''Zone1'', 1) (Finite 15))
       \<noteq> Number_cell (Finite 15)"
proof -
  have h1: "construct_LZ_Load_in_Tmp model_with_defined_loads = Inr built_model_with_defined_loads"
    by (simp add: construct_LZ_Load_in_Tmp_def LZ_Load_in_Tmp_rule_def
          total_static_load_from_components_init_def static_read_defs
          model_with_defined_loads_def built_model_with_defined_loads_def)
  have h2: "distinct (LOAD_ZONES model_with_defined_loads)"
    by (simp add: model_with_defined_loads_def)
  have h3: "distinct (TMPS model_with_defined_loads)"
    by (simp add: model_with_defined_loads_def)
  have data: "export_results_data built_model_with_defined_loads
       = Inr [((''Zone1'', 1),
                 [Some (Object_cell (ExpressionData ''LZ_Load_in_Tmp'' (''Zone1'', 1) (Finite 15)))]),
              ((''Zone2'', 1),
                 [Some (Object_cell (ExpressionData ''LZ_Load_in_Tmp'' (''Zone2'', 1) (Finite 7)))])]"
    by (simp add: export_results_data_def export_results_row_def LZ_Load_in_Tmp_at_def
          model_with_defined_loads_def built_model_with_defined_loads_def)
  from export_results_rows_and_objects [OF h1 h2 h3, of "''scenario''" "''1''" "''1''" "''1''"
      "''1''" "''1''" shared_frame]
  have "export_results ''scenario'' ''1'' ''1'' ''1'' ''1'' ''1'' built_model_with_defined_loads
          shared_frame = Inr (merged_frame built_model_with_defined_loads shared_frame)"
    by blast
  also have "merged_frame built_model_with_defined_loads shared_frame
       = \<lparr>df_columns = [''static_load_mw''],
              df_rows =
                [((''Zone1'', 1),
                    empty_row(''static_load_mw'' :=
                      Some (Object_cell (ExpressionData ''LZ_Load_in_Tmp'' (''Zone1'', 1) (Finite 15))))),
                 ((''Zone2'', 1),
                    empty_row(''static_load_mw'' :=
                      Some (Object_cell (ExpressionData ''LZ_Load_in_Tmp'' (''Zone2'', 1) (Finite 7)))))]\<rparr>"
    by (simp add: merged_frame_def shared_frame_def static_load_cell_def
          built_model_with_defined_loads_def model_with_defined_loads_def)
  finally show ?thesis using h1 data by simp
qed


section \<open>Transmission-target constraints and export\<close>

lemma map_of_Expression_component:
  "map_of (Expression_component rule ks) (z, bt, hz)
     = (if (z, bt, hz) \<in> set ks then Some (rule z bt hz) else None)"
  unfolding Expression_component_def by (induction ks) auto

lemma map_of_Constraint_component:
  "map_of (Constraint_component rule ks) (z, bt, hz)
     = (if (z, bt, hz) \<in> set ks \<and> rule z bt hz \<noteq> Skip then Some (rule z bt hz) else None)"
  unfolding Constraint_component_def by (induction ks) auto

text \<open>
  C3.  For an index \<open>(z, bt, hz)\<close> of
  \<open>TRANSMISSION_TARGET_ZONE_BLN_TYPE_HRZS_WITH_TRANSMISSION_TARGET\<close>, the module adds the
  positive-direction constraint
  \<open>Total_Transmission_Target_Energy_Pos_Dir_MWh[z,bt,hz] +
  Transmission_Target_Shortage_Pos_Dir_MWh_Expression[z,bt,hz] >=
  transmission_target_pos_dir_min_mwh[z,bt,hz]\<close> exactly when the target is not zero, and
  no constraint when it is zero (and none outside the index set); the same holds in the
  negative direction.  The shortage expression is the shortage variable when
  \<open>transmission_target_allow_violation[z]\<close> holds and 0 otherwise, and the shortage
  variables are declared over the index set within the non-negative reals.
\<close>

theorem transmission_target_constraints:
  "map_of (Transmission_Target_Pos_Dir_Constraint
        (add_model_components_transmission_target_balance md d sd sp st)) (z, bt, hz)
     = (if (z, bt, hz) \<in> set (TRANSMISSION_TARGET_ZONE_BLN_TYPE_HRZS_WITH_TRANSMISSION_TARGET md)
           \<and> transmission_target_pos_dir_min_mwh md (z, bt, hz) \<noteq> 0
        then Some (Geq (Plus (Expr_entry ''Total_Transmission_Target_Energy_Pos_Dir_MWh'' (z, bt, hz))
                             (Expr_entry ''Transmission_Target_Shortage_Pos_Dir_MWh_Expression''
                                (z, bt, hz)))
                       (Number (transmission_target_pos_dir_min_mwh md (z, bt, hz))))
        else None)
   \<and> map_of (Transmission_Target_Neg_Dir_Constraint
        (add_model_components_transmission_target_balance md d sd sp st)) (z, bt, hz)
     = (if (z, bt, hz) \<in> set (TRANSMISSION_TARGET_ZONE_BLN_TYPE_HRZS_WITH_TRANSMISSION_TARGET md)
           \<and> transmission_target_neg_dir_min_mwh md (z, bt, hz) \<noteq> 0
        then Some (Geq (Plus (Expr_entry ''Total_Transmission_Target_Energy_Neg_Dir_MWh'' (z, bt, hz))
                             (Expr_entry ''Transmission_Target_Shortage_Neg_Dir_MWh_Expression''
                                (z, bt, hz)))
                       (Number (transmission_target_neg_dir_min_mwh md (z, bt, hz))))
        else None)
   \<and> map_of (Transmission_Target_Shortage_Pos_Dir_MWh_Expression
        (add_model_components_transmission_target_balance md d sd sp st)) (z, bt, hz)
     = (if (z, bt, hz) \<in> set (TRANSMISSION_TARGET_ZONE_BLN_TYPE_HRZS_WITH_TRANSMISSION_TARGET md)
        then Some (if transmission_target_allow_violation md z
                   then Var_entry ''Transmission_Target_Shortage_Pos_Dir_MWh'' (z, bt, hz)
                   else Number 0)
        else None)
   \<and> map_of (Transmission_Target_Shortage_Neg_Dir_MWh_Expression
        (add_model_components_transmission_target_balance md d sd sp st)) (z, bt, hz)
     = (if (z, bt, hz) \<in> set (TRANSMISSION_TARGET_ZONE_BLN_TYPE_HRZS_WITH_TRANSMISSION_TARGET md)
        then Some (if transmission_target_allow_violation md z
                   then Var_entry ''Transmission_Target_Shortage_Neg_Dir_MWh'' (z, bt, hz)
                   else Number 0)
        else None)
   \<and> Transmission_Target_Shortage_Pos_Dir_MWh
        (add_model_components_transmission_target_balance md d sd sp st)
     = \<lparr>var_index = TRANSMISSION_TARGET_ZONE_BLN_TYPE_HRZS_WITH_TRANSMISSION_TARGET md,
        var_within = NonNegativeReals\<rparr>
   \<and> Transmission_Target_Shortage_Neg_Dir_MWh
        (add_model_components_transmission_target_balance md d sd sp st)
     = \<lparr>var_index = TRANSMISSION_TARGET_ZONE_BLN_TYPE_HRZS_WITH_TRANSMISSION_TARGET md,
        var_within = NonNegativeReals\<rparr>"
  by (simp add: add_model_components_transmission_target_balance_def Let_def
        map_of_Expression_component map_of_Constraint_component
        transmission_target_pos_dir_rule_def transmission_target_neg_dir_rule_def
        violation_pos_dir_expression_rule_def violation_neg_dir_expression_rule_def)

lemma export_row_never_divides_by_zero:
  "export_row_transmission_target_balance m sol k
     = Inr [Some (fraction_met (sol ''Total_Transmission_Target_Energy_Pos_Dir_MWh'' k)
                    (transmission_target_pos_dir_min_mwh m k)),
            Some (if transmission_target_allow_violation m (fst k)
                  then sol ''Transmission_Target_Shortage_Pos_Dir_MWh'' k else 0),
            Some (fraction_met (sol ''Total_Transmission_Target_Energy_Neg_Dir_MWh'' k)
                    (transmission_target_neg_dir_min_mwh m k)),
            Some (if transmission_target_allow_violation m (fst k)
                  then sol ''Transmission_Target_Shortage_Neg_Dir_MWh'' k else 0)]"
  by (simp add: export_row_transmission_target_balance_def py_truediv_def fraction_met_def
        violation_pos_dir_expression_rule_def violation_neg_dir_expression_rule_def)

lemma df_update_error: "df_update df other = Inl e \<Longrightarrow> e = ValueError"
  by (simp add: df_update_def split: if_splits)

text \<open>
  C7.  \<open>export_results\<close> of the transmission-target balance never divides by zero:
  for every index of the set, in both directions, the fraction of the target met is 1
  when the target is 0 and the delivered energy divided by the target otherwise; the
  data rows are always produced, and the export never raises ZeroDivisionError.
\<close>

theorem export_division_guarded:
  "export_data_transmission_target_balance m sol
     = Inr (map (\<lambda>k. (k,
            [Some (fraction_met (sol ''Total_Transmission_Target_Energy_Pos_Dir_MWh'' k)
                    (transmission_target_pos_dir_min_mwh m k)),
             Some (if transmission_target_allow_violation m (fst k)
                   then sol ''Transmission_Target_Shortage_Pos_Dir_MWh'' k else 0),
             Some (fraction_met (sol ''Total_Transmission_Target_Energy_Neg_Dir_MWh'' k)
                    (transmission_target_neg_dir_min_mwh m k)),
             Some (if transmission_target_allow_violation m (fst k)
                   then sol ''Transmission_Target_Shortage_Neg_Dir_MWh'' k else 0)]))
          (TRANSMISSION_TARGET_ZONE_BLN_TYPE_HRZS_WITH_TRANSMISSION_TARGET m))
   \<and> export_results_transmission_target_balance sd sp st m sol df \<noteq> Inl ZeroDivisionError
   \<and> fraction_met delivered 0 = 1
   \<and> fraction_met delivered target = (if target = 0 then 1 else delivered / target)"
proof -
  have data: "export_data_transmission_target_balance m sol
     = Inr (map (\<lambda>k. (k,
            [Some (fraction_met (sol ''Total_Transmission_Target_Energy_Pos_Dir_MWh'' k)
                    (transmission_target_pos_dir_min_mwh m k)),
             Some (if transmission_target_allow_violation m (fst k)
                   then sol ''Transmission_Target_Shortage_Pos_Dir_MWh'' k else 0),
             Some (fraction_met (sol ''Total_Transmission_Target_Energy_Neg_Dir_MWh'' k)
                    (transmission_target_neg_dir_min_mwh m k)),
             Some (if transmission_target_allow_violation m (fst k)
                   then sol ''Transmission_Target_Shortage_Neg_Dir_MWh'' k else 0)]))
          (TRANSMISSION_TARGET_ZONE_BLN_TYPE_HRZS_WITH_TRANSMISSION_TARGET m))"
    unfolding export_data_transmission_target_balance_def
    by (rule build_entries_total) (simp add: export_row_never_divides_by_zero)
  have "export_results_transmission_target_balance sd sp st m sol df \<noteq> Inl ZeroDivisionError"
  proof
    assume "export_results_transmission_target_balance sd sp st m sol df = Inl ZeroDivisionError"
    then show False
      unfolding export_results_transmission_target_balance_def Let_def data
      by (auto dest: df_update_error)
  qed
  with data show ?thesis by (simp add: fraction_met_def)
qed


section \<open>Loads resolved against the scenario\<close>

lemma scalar_subquery_member: "scalar_subquery rows = Some x \<Longrightarrow> x \<in> set rows"
  by (cases rows) (simp_all add: scalar_subquery_def)

text \<open>
  C5.  Every row \<open>(load_zone, timepoint, load_component, load_mw)\<close> that
  \<open>get_inputs_from_database\<close> returns as a load comes from a row of
  \<open>inputs_system_load_levels\<close> whose timepoint belongs to the scenario's temporal
  subscenario in the given subproblem and stage, whose load zone belongs to the
  scenario's load-zone subscenario, whose load-levels subscenario is the one the
  scenario's \<open>load_scenario_id\<close> refers to, whose (load_zone, load_component) pair is
  listed in the load-components subscenario that the same \<open>load_scenario_id\<close> refers
  to, and which has the given weather iteration and stage.  So no row outside these
  filters is returned.
\<close>

theorem loads_belong_to_scenario:
  assumes "row \<in> set (fst (get_inputs_from_database scenario_id ss w h a sp st conn))"
  shows "\<exists>r \<in> set (inputs_system_load_levels conn).
           row = (ll_load_zone r, ll_timepoint r, ll_load_component r, ll_load_mw r)
           \<and> timepoint_in_scenario conn ss sp st (ll_timepoint r)
           \<and> load_zone_in_scenario conn ss (ll_load_zone r)
           \<and> load_levels_in_scenario conn ss (ll_load_levels_scenario_id r)
           \<and> load_component_in_scenario conn ss (ll_load_zone r) (ll_load_component r)
           \<and> ll_weather_iteration r = w
           \<and> ll_stage_id r = st"
proof -
  from assms obtain r where r: "r \<in> set (inputs_system_load_levels conn)"
    and row: "row = (ll_load_zone r, ll_timepoint r, ll_load_component r, ll_load_mw r)"
    and tp: "ll_timepoint r \<in> set (relevant_timepoints conn ss sp st)"
    and lz: "ll_load_zone r \<in> set (relevant_load_zones conn ss)"
    and lv: "load_levels_scenario_of conn ss = Some (ll_load_levels_scenario_id r)"
    and cm: "(ll_load_zone r, ll_load_component r) \<in> set (relevant_load_components conn ss)"
    and wi: "ll_weather_iteration r = w" and sg: "ll_stage_id r = st"
    by (auto simp: get_inputs_from_database_def Let_def split: if_splits)
  from tp have 1: "timepoint_in_scenario conn ss sp st (ll_timepoint r)"
    by (auto simp: relevant_timepoints_def timepoint_in_scenario_def)
  from lz have 2: "load_zone_in_scenario conn ss (ll_load_zone r)"
    by (auto simp: relevant_load_zones_def load_zone_in_scenario_def)
  from scalar_subquery_member [OF lv [unfolded load_levels_scenario_of_def]]
  have 3: "load_levels_in_scenario conn ss (ll_load_levels_scenario_id r)"
    by (auto simp: load_levels_in_scenario_def)
  from cm obtain c where c: "c \<in> set (inputs_system_load_components conn)"
    and cz: "c_load_zone c = ll_load_zone r" and cc: "c_load_component c = ll_load_component r"
    and cs: "load_components_scenario_of conn ss = Some (c_load_components_scenario_id c)"
    by (auto simp: relevant_load_components_def)
  from scalar_subquery_member [OF cs [unfolded load_components_scenario_of_def]] c cz cc
  have 4: "load_component_in_scenario conn ss (ll_load_zone r) (ll_load_component r)"
    by (auto simp: load_component_in_scenario_def)
  from r row 1 2 3 4 wi sg show ?thesis by blast
qed

lemma demo_loads:
  "fst (get_inputs_from_database 1 demo_subscenarios 1 1 1 1 1 demo_database)
     = [(''Zone1'', 1, ''base'', 10)]"
  by (simp add: get_inputs_from_database_def Let_def demo_database_def demo_subscenarios_def
        relevant_timepoints_def relevant_load_zones_def load_levels_scenario_of_def
        load_components_scenario_of_def relevant_load_components_def scalar_subquery_def)

text \<open>
  The theorem at the small database: the only load returned for scenario 1 is the row
  of Zone1, and it passes every filter.
\<close>

theorem loads_belong_to_scenario_witness:
  "(''Zone1'', 1, ''base'', 10)
      \<in> set (fst (get_inputs_from_database 1 demo_subscenarios 1 1 1 1 1 demo_database))
   \<and> fst (get_inputs_from_database 1 demo_subscenarios 1 1 1 1 1 demo_database)
       = [(''Zone1'', 1, ''base'', 10)]
   \<and> (\<exists>r \<in> set (inputs_system_load_levels demo_database).
           (''Zone1'', 1, ''base'', 10)
             = (ll_load_zone r, ll_timepoint r, ll_load_component r, ll_load_mw r)
           \<and> timepoint_in_scenario demo_database demo_subscenarios 1 1 (ll_timepoint r)
           \<and> load_zone_in_scenario demo_database demo_subscenarios (ll_load_zone r)
           \<and> load_levels_in_scenario demo_database demo_subscenarios
                (ll_load_levels_scenario_id r)
           \<and> load_component_in_scenario demo_database demo_subscenarios
                (ll_load_zone r) (ll_load_component r)
           \<and> ll_weather_iteration r = 1
           \<and> ll_stage_id r = 1)"
proof -
  have mem: "(''Zone1'', 1, ''base'', 10)
      \<in> set (fst (get_inputs_from_database 1 demo_subscenarios 1 1 1 1 1 demo_database))"
    by (simp add: demo_loads)
  from mem demo_loads loads_belong_to_scenario [OF mem] show ?thesis by blast
qed


section \<open>The PRM requirement dictionary\<close>

lemma set_unique: "set (unique xs) = set xs"
  by (simp add: unique_def)

lemma first_in_period_none: "p \<notin> period ` set rows \<Longrightarrow> first_in_period rows p = None"
proof -
  assume "p \<notin> period ` set rows"
  then have "filter (\<lambda>r. period r = p) rows = []" by (auto simp: filter_empty_conv)
  then show ?thesis by (simp add: first_in_period_def)
qed

lemma period_loop_result:
  assumes "set ps \<subseteq> period ` set rows"
  shows "period_loop rows by_period ps
       = Inr (\<lambda>q. if q \<in> set ps then first_in_period rows q else by_period q)"
  using assms
proof (induction ps arbitrary: by_period)
  case Nil
  show ?case by simp
next
  case (Cons p ps)
  from Cons.prems have "filter (\<lambda>r. period r = p) rows \<noteq> []"
    by (auto simp: filter_empty_conv)
  then obtain r0 rs where f: "filter (\<lambda>r. period r = p) rows = r0 # rs"
    by (cases "filter (\<lambda>r. period r = p) rows") auto
  have here: "first_in_period rows p = Some (prm_requirement_mw r0)"
    by (simp add: first_in_period_def f)
  from Cons.prems have sub: "set ps \<subseteq> period ` set rows" by simp
  have "period_loop rows by_period (p # ps)
      = period_loop rows (by_period(p \<mapsto> prm_requirement_mw r0)) ps"
    by (simp add: f iloc0_def)
  also have "\<dots> = Inr (\<lambda>q. if q \<in> set ps then first_in_period rows q
                           else (by_period(p \<mapsto> prm_requirement_mw r0)) q)"
    by (rule Cons.IH [OF sub])
  also have "(\<lambda>q. if q \<in> set ps then first_in_period rows q
                           else (by_period(p \<mapsto> prm_requirement_mw r0)) q)
      = (\<lambda>q. if q \<in> set (p # ps) then first_in_period rows q else by_period q)"
    by (rule ext) (simp add: here)
  finally show ?case .
qed

lemma period_dict_of_zone:
  "period_loop rows Map.empty (unique (map period rows)) = Inr (first_in_period rows)"
proof -
  have "period_loop rows Map.empty (unique (map period rows))
      = Inr (\<lambda>q. if q \<in> set (unique (map period rows)) then first_in_period rows q else None)"
    by (rule period_loop_result) (simp add: set_unique)
  also have "(\<lambda>q. if q \<in> set (unique (map period rows)) then first_in_period rows q else None)
      = first_in_period rows"
    by (rule ext) (simp add: set_unique first_in_period_none)
  finally show ?thesis .
qed

lemma zone_loop_result:
  "zone_loop sub dct zs
     = Inr (\<lambda>z. if z \<in> set zs then Some (first_in_period (filter (\<lambda>r. prm_zone r = z) sub))
                else dct z)"
proof (induction zs arbitrary: dct)
  case Nil
  show ?case by simp
next
  case (Cons z zs)
  have "zone_loop sub dct (z # zs)
      = zone_loop sub (dct(z \<mapsto> first_in_period (filter (\<lambda>r. prm_zone r = z) sub))) zs"
    by (simp add: period_dict_of_zone)
  also have "\<dots> = Inr (\<lambda>z'. if z' \<in> set zs
                 then Some (first_in_period (filter (\<lambda>r. prm_zone r = z') sub))
                 else (dct(z \<mapsto> first_in_period (filter (\<lambda>r. prm_zone r = z) sub))) z')"
    by (rule Cons.IH)
  also have "(\<lambda>z'. if z' \<in> set zs
                 then Some (first_in_period (filter (\<lambda>r. prm_zone r = z') sub))
                 else (dct(z \<mapsto> first_in_period (filter (\<lambda>r. prm_zone r = z) sub))) z')
      = (\<lambda>z'. if z' \<in> set (z # zs)
                 then Some (first_in_period (filter (\<lambda>r. prm_zone r = z') sub))
                 else dct z')"
    by (rule ext) simp
  finally show ?case .
qed

lemma requirement_of_subscenario:
  "\<exists>dct. zone_loop (filter (\<lambda>r. prm_requirement_scenario_id r = sc_id) data_input) Map.empty
            (unique (map prm_zone (filter (\<lambda>r. prm_requirement_scenario_id r = sc_id) data_input)))
          = Inr dct
        \<and> requirement_at dct = first_requirement data_input sc_id"
proof -
  let ?sub = "filter (\<lambda>r. prm_requirement_scenario_id r = sc_id) data_input"
  let ?dct = "\<lambda>z. if z \<in> set (unique (map prm_zone ?sub))
                then Some (first_in_period (filter (\<lambda>r. prm_zone r = z) ?sub)) else None"
  have run: "zone_loop ?sub Map.empty (unique (map prm_zone ?sub)) = Inr ?dct"
    by (rule zone_loop_result)
  have "requirement_at ?dct z p = first_requirement data_input sc_id z p" for z p
  proof (cases "z \<in> prm_zone ` set ?sub")
    case True
    then show ?thesis
      by (simp add: requirement_at_def set_unique first_in_period_def first_requirement_def
            conj_commute conj_left_commute)
  next
    case False
    then have "filter (\<lambda>r. prm_requirement_scenario_id r = sc_id \<and> prm_zone r = z \<and> period r = p)
                 data_input = []"
      by (auto simp: filter_empty_conv)
    with False show ?thesis
      by (simp add: requirement_at_def set_unique first_requirement_def)
  qed
  then have "requirement_at ?dct = first_requirement data_input sc_id" by (intro ext)
  with run show ?thesis by blast
qed

text \<open>
  C8.  \<open>load_system_prm_requirement\<close> raises nothing and makes one call of
  \<open>prm_requirement\<close> for every subscenario row, in order, with that row's identifier;
  the dictionary of each call maps a zone and a period to the \<open>prm_requirement_mw\<close> of
  the first row of the input with that subscenario, zone and period, and has no entry
  where no row matches.  So when several rows have the same zone and period within a
  subscenario, the rows after the first are ignored: they are neither rejected nor do
  they overwrite the value.
\<close>

theorem prm_requirement_first_row_wins:
  "snd (load_system_prm_requirement subscenario_input data_input) = None
   \<and> map arg_prm_requirement_scenario_id
       (fst (load_system_prm_requirement subscenario_input data_input))
     = map sub_prm_requirement_scenario_id subscenario_input
   \<and> map (\<lambda>call. requirement_at (arg_zone_period_requirement call))
       (fst (load_system_prm_requirement subscenario_input data_input))
     = map (\<lambda>i. first_requirement data_input (sub_prm_requirement_scenario_id i))
         subscenario_input"
proof (induction subscenario_input)
  case Nil
  show ?case by simp
next
  case (Cons i rest)
  obtain dct where run: "zone_loop
        (filter (\<lambda>r. prm_requirement_scenario_id r = sub_prm_requirement_scenario_id i) data_input)
        Map.empty
        (unique (map prm_zone
           (filter (\<lambda>r. prm_requirement_scenario_id r = sub_prm_requirement_scenario_id i)
              data_input))) = Inr dct"
    and dct: "requirement_at dct = first_requirement data_input (sub_prm_requirement_scenario_id i)"
    using requirement_of_subscenario by blast
  obtain calls err where rest: "load_system_prm_requirement rest data_input = (calls, err)"
    by (cases "load_system_prm_requirement rest data_input")
  from Cons.IH rest run dct show ?case by (simp add: Let_def)
qed

text \<open>
  The theorem at the input with a repeated row: the requirement of PRM1 in 2030 is 100,
  the value of the first row, not 250; the row of the other subscenario gives no entry.
\<close>

theorem prm_requirement_first_row_wins_witness:
  "map (\<lambda>call. requirement_at (arg_zone_period_requirement call) ''PRM1'' 2030)
       (fst (load_system_prm_requirement prm_subscenario_input prm_data_input)) = [Some 100]
   \<and> map (\<lambda>call. requirement_at (arg_zone_period_requirement call) ''PRM1'' 2040)
       (fst (load_system_prm_requirement prm_subscenario_input prm_data_input)) = [None]
   \<and> snd (load_system_prm_requirement prm_subscenario_input prm_data_input) = None"
proof -
  have a: "first_requirement prm_data_input 1 ''PRM1'' 2030 = Some 100"
    by (simp add: first_requirement_def prm_data_input_def)
  have b: "first_requirement prm_data_input 1 ''PRM1'' 2040 = None"
    by (simp add: first_requirement_def prm_data_input_def)
  note t = prm_requirement_first_row_wins [of prm_subscenario_input prm_data_input]
  from t have m: "map (\<lambda>call. requirement_at (arg_zone_period_requirement call))
       (fst (load_system_prm_requirement prm_subscenario_input prm_data_input))
     = [first_requirement prm_data_input 1]"
    by (simp add: prm_subscenario_input_def)
  have "map (\<lambda>call. requirement_at (arg_zone_period_requirement call) z p)
       (fst (load_system_prm_requirement prm_subscenario_input prm_data_input))
     = [first_requirement prm_data_input 1 z p]" for z p
    using arg_cong [OF m, of "map (\<lambda>f. f z p)"] by (simp add: comp_def)
  with a b t show ?thesis by simp
qed

end
